theory Spec2Isabelle
  imports Complex_Main
begin

section \<open>Common data: errors, trajectory arrays, the array store\<close>

text \<open>
  Python exceptions are values. \<open>NameError\<close> carries the unbound name, \<open>ValueError\<close>
  its message.
\<close>

datatype error =
    NameError string
  | IndexError
  | ValueError string
  | AttributeError string
  | TypeError
  | KeyError
  | RuntimeError string
  | RetriesExhausted

text \<open>
  A float64 value where the code can produce one that is no number: a finite value, read
  as the real it stands for (arithmetic on finite values is exact here: no rounding, no
  overflow), plus and minus infinity, and nan. The operations follow IEEE 754 on the
  special values; the sign of a zero is not kept.
\<close>

datatype fl = is_Fin: Fin (the_fin: real) | PInf | NInf | FNaN

fun fl_neg :: "fl \<Rightarrow> fl" where
  "fl_neg (Fin a) = Fin (- a)"
| "fl_neg PInf = NInf"
| "fl_neg NInf = PInf"
| "fl_neg FNaN = FNaN"

fun fl_add :: "fl \<Rightarrow> fl \<Rightarrow> fl" where
  "fl_add FNaN b = FNaN"
| "fl_add a FNaN = FNaN"
| "fl_add (Fin a) (Fin b) = Fin (a + b)"
| "fl_add PInf NInf = FNaN"
| "fl_add NInf PInf = FNaN"
| "fl_add PInf b = PInf"
| "fl_add a PInf = PInf"
| "fl_add NInf b = NInf"
| "fl_add a NInf = NInf"

definition fl_sub :: "fl \<Rightarrow> fl \<Rightarrow> fl" where
  "fl_sub a b = fl_add a (fl_neg b)"

text \<open>Infinity times a finite value: by the sign of the value, nan for zero.\<close>

definition inf_times :: "fl \<Rightarrow> real \<Rightarrow> fl" where
  "inf_times i a = (if 0 < a then i else if a < 0 then fl_neg i else FNaN)"

fun fl_mul :: "fl \<Rightarrow> fl \<Rightarrow> fl" where
  "fl_mul FNaN b = FNaN"
| "fl_mul a FNaN = FNaN"
| "fl_mul (Fin a) (Fin b) = Fin (a * b)"
| "fl_mul (Fin a) b = inf_times b a"
| "fl_mul a (Fin b) = inf_times a b"
| "fl_mul PInf b = b"
| "fl_mul NInf b = fl_neg b"

text \<open>
  The quotient of two finite values. numpy does not raise on a zero divisor: the quotient
  is an infinity with the sign of the dividend, or nan for \<open>0 / 0\<close>. (The divisors of
  \<^verbatim>\<open>traj_smooth_ends\<close> are differences \<open>t1 - t0\<close>, which are \<open>+0.0\<close> when they are zero.)
\<close>

definition fdiv :: "real \<Rightarrow> real \<Rightarrow> fl" where
  "fdiv a b =
     (if b \<noteq> 0 then Fin (a / b)
      else if 0 < a then PInf else if a < 0 then NInf else FNaN)"

text \<open>\<open><\<close> and \<open>\<le>\<close>: false whenever an operand is nan.\<close>

fun fl_less :: "fl \<Rightarrow> fl \<Rightarrow> bool" where
  "fl_less FNaN b = False"
| "fl_less a FNaN = False"
| "fl_less (Fin a) (Fin b) = (a < b)"
| "fl_less a NInf = False"
| "fl_less NInf b = True"
| "fl_less PInf b = False"
| "fl_less a PInf = True"

definition fl_le :: "fl \<Rightarrow> fl \<Rightarrow> bool" where
  "fl_le a b = (a \<noteq> FNaN \<and> b \<noteq> FNaN \<and> (a = b \<or> fl_less a b))"

fun fl_sqrt :: "fl \<Rightarrow> fl" where
  "fl_sqrt (Fin a) = (if a < 0 then FNaN else Fin (sqrt a))"
| "fl_sqrt PInf = PInf"
| "fl_sqrt NInf = FNaN"
| "fl_sqrt FNaN = FNaN"

text \<open>A sum as the loop \<^verbatim>\<open>acc = 0; acc = acc + x\<close> computes it.\<close>

definition fl_sum :: "fl list \<Rightarrow> fl" where
  "fl_sum xs = foldl fl_add (Fin 0) xs"

text \<open>
  A row of the trajectory array of \<^verbatim>\<open>gps_util.py\<close>. The array has eight columns, fixed by
  the mobility library that produces it; the fields are the columns in order:
  column 0 \<open>flag\<close>, 1 \<open>x0\<close>, 2 \<open>y0\<close>, 3 \<open>t0\<close> (start timestamp), 4 \<open>x1\<close>, 5 \<open>y1\<close>,
  6 \<open>t1\<close> (end timestamp), 7 \<open>obs\<close> (1 = observed). The flag, the timestamps and the
  indicator are finite float64 values, idealised as reals. The coordinates are the columns
  \<^verbatim>\<open>traj_smooth_ends\<close> computes by a division, so they are \<open>fl\<close> values.
\<close>

record seg =
  flag :: real
  x0 :: fl
  y0 :: fl
  t0 :: real
  x1 :: fl
  y1 :: fl
  t1 :: real
  obs :: real

type_synonym traj = "seg list"

text \<open>
  numpy arrays are mutable objects, and \<^verbatim>\<open>traj_smooth_ends\<close> writes into one. The store
  is the list of all arrays allocated so far; a reference is an index into it.
\<close>

type_synonym heap = "traj list"

definition alloc :: "heap \<Rightarrow> traj \<Rightarrow> heap \<times> nat" where
  "alloc h a = (h @ [a], length h)"

definition getitem :: "heap \<Rightarrow> nat \<Rightarrow> nat \<Rightarrow> seg" where
  "getitem h a i = (h ! a) ! i"

definition setitem :: "heap \<Rightarrow> nat \<Rightarrow> nat \<Rightarrow> (seg \<Rightarrow> seg) \<Rightarrow> heap" where
  "setitem h a i f = h[a := (h ! a)[i := f ((h ! a) ! i)]]"

text \<open>\<^verbatim>\<open>a[mask, :]\<close>: the rows where the mask is true, as a new array (a copy).\<close>

definition mask_select :: "'a list \<Rightarrow> bool list \<Rightarrow> 'a list" where
  "mask_select xs m = map fst (filter snd (zip xs m))"

text \<open>\<^verbatim>\<open>sum(mask)\<close> over a boolean array: the number of true entries.\<close>

definition count_true :: "bool list \<Rightarrow> nat" where
  "count_true m = length (filter (\<lambda>b. b) m)"

section \<open>\<^verbatim>\<open>traj_smooth_ends\<close>\<close>

text \<open>
  \<^verbatim>\<open>
  current_traj = traj[index_rows, :]
  if sum(index_rows) == 1:
      p0 = (start_time - current_traj[0, 3]) / (current_traj[0, 6] - current_traj[0, 3])
      p1 = (end_time - current_traj[0, 3]) / (current_traj[0, 6] - current_traj[0, 3])
      x0, y0 = current_traj[0, [1, 2]]
      x1, y1 = current_traj[0, [4, 5]]
      current_traj[0, 1] = (1 - p0) * x0 + p0 * x1
      current_traj[0, 2] = (1 - p0) * y0 + p0 * y1
      current_traj[0, 3] = start_time
      current_traj[0, 4] = (1 - p1) * x0 + p1 * x1
      current_traj[0, 5] = (1 - p1) * y0 + p1 * y1
      current_traj[0, 6] = end_time
      return current_traj
  p0 = (current_traj[0, 6] - start_time) / (current_traj[0, 6] - current_traj[0, 3])
  p1 = (end_time - current_traj[-1, 3]) / (current_traj[-1, 6] - current_traj[-1, 3])
  current_traj[0, 1] = (1 - p0) * current_traj[0, 4] + p0 * current_traj[0, 1]
  current_traj[0, 2] = (1 - p0) * current_traj[0, 5] + p0 * current_traj[0, 2]
  current_traj[0, 3] = start_time
  current_traj[-1, 4] = (1 - p1) * current_traj[-1, 1] + p1 * current_traj[-1, 4]
  current_traj[-1, 5] = (1 - p1) * current_traj[-1, 2] + p1 * current_traj[-1, 5]
  current_traj[-1, 6] = end_time
  return current_traj
  \<close>
  A boolean mask whose length is not the number of rows raises IndexError, and so does
  row 0 of an empty selection. Every write goes to the store, and every read after it
  reads the store as written. \<open>p0\<close> and \<open>p1\<close> are quotients of finite values, infinite
  or nan on a segment of zero duration.
\<close>

definition traj_smooth_ends ::
  "heap \<Rightarrow> nat \<Rightarrow> real \<Rightarrow> real \<Rightarrow> bool list \<Rightarrow> error + (heap \<times> nat)" where
  "traj_smooth_ends h traj start_time end_time index_rows =
    (if length index_rows \<noteq> length (h ! traj) then Inl IndexError
     else
       let (ha, c) = alloc h (mask_select (h ! traj) index_rows) in
       if count_true index_rows = 1 then
         let p0 = fdiv (start_time - t0 (getitem ha c 0)) (t1 (getitem ha c 0) - t0 (getitem ha c 0));
             p1 = fdiv (end_time - t0 (getitem ha c 0)) (t1 (getitem ha c 0) - t0 (getitem ha c 0));
             x0v = x0 (getitem ha c 0);
             y0v = y0 (getitem ha c 0);
             x1v = x1 (getitem ha c 0);
             y1v = y1 (getitem ha c 0);
             h1 = setitem ha c 0
                    (x0_update (\<lambda>_. fl_add (fl_mul (fl_sub (Fin 1) p0) x0v) (fl_mul p0 x1v)));
             h2 = setitem h1 c 0
                    (y0_update (\<lambda>_. fl_add (fl_mul (fl_sub (Fin 1) p0) y0v) (fl_mul p0 y1v)));
             h3 = setitem h2 c 0 (t0_update (\<lambda>_. start_time));
             h4 = setitem h3 c 0
                    (x1_update (\<lambda>_. fl_add (fl_mul (fl_sub (Fin 1) p1) x0v) (fl_mul p1 x1v)));
             h5 = setitem h4 c 0
                    (y1_update (\<lambda>_. fl_add (fl_mul (fl_sub (Fin 1) p1) y0v) (fl_mul p1 y1v)));
             h6 = setitem h5 c 0 (t1_update (\<lambda>_. end_time))
         in Inr (h6, c)
       else if length (ha ! c) = 0 then Inl IndexError
       else
         let e = length (ha ! c) - 1;
             p0 = fdiv (t1 (getitem ha c 0) - start_time) (t1 (getitem ha c 0) - t0 (getitem ha c 0));
             p1 = fdiv (end_time - t0 (getitem ha c e)) (t1 (getitem ha c e) - t0 (getitem ha c e));
             h1 = setitem ha c 0
                    (x0_update (\<lambda>_. fl_add (fl_mul (fl_sub (Fin 1) p0) (x1 (getitem ha c 0)))
                                           (fl_mul p0 (x0 (getitem ha c 0)))));
             h2 = setitem h1 c 0
                    (y0_update (\<lambda>_. fl_add (fl_mul (fl_sub (Fin 1) p0) (y1 (getitem h1 c 0)))
                                           (fl_mul p0 (y0 (getitem h1 c 0)))));
             h3 = setitem h2 c 0 (t0_update (\<lambda>_. start_time));
             h4 = setitem h3 c e
                    (x1_update (\<lambda>_. fl_add (fl_mul (fl_sub (Fin 1) p1) (x0 (getitem h3 c e)))
                                           (fl_mul p1 (x1 (getitem h3 c e)))));
             h5 = setitem h4 c e
                    (y1_update (\<lambda>_. fl_add (fl_mul (fl_sub (Fin 1) p1) (y0 (getitem h4 c e)))
                                           (fl_mul p1 (y1 (getitem h4 c e)))));
             h6 = setitem h5 c e (t1_update (\<lambda>_. end_time))
         in Inr (h6, c))"

text \<open>
  Linear interpolation, as the specification words it: the point at time \<open>t\<close> on the
  segment from \<open>(ta, xa)\<close> to \<open>(tb, xb)\<close>.
\<close>

definition lerp :: "real \<Rightarrow> real \<Rightarrow> real \<Rightarrow> real \<Rightarrow> real \<Rightarrow> real" where
  "lerp ta xa tb xb t = xa + (t - ta) / (tb - ta) * (xb - xa)"

text \<open>What a call returns to its caller: the contents of the returned array, or the exception.\<close>

definition returned_array :: "error + (heap \<times> nat) \<Rightarrow> error + traj" where
  "returned_array r = (case r of Inl e \<Rightarrow> Inl e | Inr (h, c) \<Rightarrow> Inr (h ! c))"

text \<open>
  The sub-trajectory the specification describes for the selected rows \<open>sel\<close> and the
  window from \<open>s\<close> to \<open>e\<close>: the first row starts at \<open>s\<close>, at the point interpolated on
  that segment, the last row ends at \<open>e\<close>, at the point interpolated on that segment, and
  everything else is as selected.
\<close>

definition smoothed :: "traj \<Rightarrow> real \<Rightarrow> real \<Rightarrow> traj" where
  "smoothed sel s e =
     (let f = hd sel;
          l = last sel;
          a = sel[0 := (sel ! 0)
                 \<lparr>x0 := Fin (lerp (t0 f) (the_fin (x0 f)) (t1 f) (the_fin (x1 f)) s),
                  y0 := Fin (lerp (t0 f) (the_fin (y0 f)) (t1 f) (the_fin (y1 f)) s),
                  t0 := s\<rparr>]
      in a[length sel - 1 := (a ! (length sel - 1))
             \<lparr>x1 := Fin (lerp (t0 l) (the_fin (x0 l)) (t1 l) (the_fin (x1 l)) e),
              y1 := Fin (lerp (t0 l) (the_fin (y0 l)) (t1 l) (the_fin (y1 l)) e),
              t1 := e\<rparr>])"

section \<open>Dataframes\<close>

text \<open>
  A pandas dataframe with the default integer index: its column names and its rows. A
  dataframe is rectangular (\<open>wf_df\<close>). \<open>'c\<close> is the type of a cell: \<open>real\<close> for a frame
  of finite numbers, \<open>cell\<close> in general: a float (\<open>Num r\<close> a finite one, \<open>NaN\<close> the missing
  float), or the missing value \<^verbatim>\<open>pd.NA\<close>.
\<close>

datatype cell = Val fl | NA

abbreviation Num :: "real \<Rightarrow> cell" where
  "Num r \<equiv> Val (Fin r)"

abbreviation NaN :: cell where
  "NaN \<equiv> Val FNaN"

record 'c dataframe =
  columns :: "string list"
  rows :: "'c list list"

definition wf_df :: "'c dataframe \<Rightarrow> bool" where
  "wf_df df = list_all (\<lambda>r. length r = length (columns df)) (rows df)"

fun index_of :: "'a \<Rightarrow> 'a list \<Rightarrow> nat option" where
  "index_of a [] = None"
| "index_of a (b # bs) =
     (if a = b then Some 0 else (case index_of a bs of None \<Rightarrow> None | Some j \<Rightarrow> Some (Suc j)))"

text \<open>\<^verbatim>\<open>df.name\<close>: the column of that name; AttributeError when there is none.\<close>

definition column_of :: "'c dataframe \<Rightarrow> string \<Rightarrow> error + 'c list" where
  "column_of df name =
     (case index_of name (columns df) of
        None \<Rightarrow> Inl (AttributeError name)
      | Some j \<Rightarrow> Inr (map (\<lambda>r. r ! j) (rows df)))"

text \<open>
  \<^verbatim>\<open>df.append(pd.Series(res, index=df.columns), ignore_index=True)\<close> (pandas before 2.0):
  the series needs as many values as there are columns, and the result is a new dataframe;
  \<open>df\<close> itself is not changed.
\<close>

definition df_append :: "'c dataframe \<Rightarrow> 'c list \<Rightarrow> error + 'c dataframe" where
  "df_append df res =
     (if length res \<noteq> length (columns df)
      then Inl (ValueError ''Length of values does not match length of index'')
      else Inr (df\<lparr>rows := rows df @ [res]\<rparr>))"

text \<open>
  \<^verbatim>\<open>df.loc[0] = values\<close>: the row labelled 0 is overwritten, or added to an empty frame.
\<close>

definition df_set_loc0 :: "'c dataframe \<Rightarrow> 'c list \<Rightarrow> error + 'c dataframe" where
  "df_set_loc0 df vals =
     (if length vals \<noteq> length (columns df)
      then Inl (ValueError ''cannot set a row with mismatched columns'')
      else Inr (df\<lparr>rows := (case rows df of [] \<Rightarrow> [vals] | r # rs \<Rightarrow> vals # rs)\<rparr>))"

section \<open>\<^verbatim>\<open>gps_quality\<close>\<close>

text \<open>\<^verbatim>\<open>int(x)\<close> on a float: truncation towards zero.\<close>

definition py_int :: "real \<Rightarrow> int" where
  "py_int x = (if 0 \<le> x then \<lfloor>x\<rfloor> else \<lceil>x\<rceil>)"

text \<open>
  \<^verbatim>\<open>
  quality_check = 0
  for hour in range(num_hours):
      hour_data = data[(data.timestamp >= start_time + hour * 3600)
                       & (data.timestamp < start_time + (hour + 1) * 3600)]
      if hour_data.shape[0] > 60:
          quality_check += 1
  \<close>
  The loop, over the list of the hours still to visit.
\<close>

fun quality_loop :: "real list \<Rightarrow> real \<Rightarrow> int list \<Rightarrow> int \<Rightarrow> int" where
  "quality_loop ts start_time [] quality_check = quality_check"
| "quality_loop ts start_time (h # hs) quality_check =
     (let hour_data =
            filter (\<lambda>t. start_time + of_int h * 3600 \<le> t \<and> t < start_time + (of_int h + 1) * 3600) ts
      in quality_loop ts start_time hs
           (if 60 < length hour_data then quality_check + 1 else quality_check))"

text \<open>\<^verbatim>\<open>range(n)\<close> for an integer \<open>n\<close>: empty when \<open>n \<le> 0\<close>.\<close>

definition py_range :: "int \<Rightarrow> int list" where
  "py_range n = map int [0..<nat n]"

text \<open>
  \<^verbatim>\<open>gps_quality\<close> returns nothing; \<open>Inr\<close> carries the dataframe as it is after the call,
  so that the caller's view of \<open>data\<close> is part of the result.
\<close>

definition gps_quality :: "real dataframe \<Rightarrow> error + real dataframe" where
  "gps_quality data =
     (case column_of data ''timestamp'' of
        Inl e \<Rightarrow> Inl e
      | Inr ts \<Rightarrow>
          if ts = [] then Inl IndexError
          else
            let end_time = last ts;
                start_time = hd ts;
                num_hours = py_int ((end_time - start_time) / 3600) + 1;
                quality_check = quality_loop ts start_time (py_range num_hours) 0
            in if of_int quality_check < 0.5 * (of_int num_hours :: real)
               then Inl (ValueError ''Data does not have enough observations per hour.'')
               else Inr data)"

text \<open>
  The count the specification speaks of: the hour buckets \<open>[start + h*3600, start + (h+1)*3600)\<close>,
  \<open>h\<close> in \<open>0..num_hours-1\<close>, that hold more than 60 observations.
\<close>

definition dense_hours :: "real list \<Rightarrow> real \<Rightarrow> int \<Rightarrow> nat" where
  "dense_hours ts start n =
     length (filter
       (\<lambda>h. 60 < length (filter (\<lambda>t. start + real h * 3600 \<le> t \<and> t < start + (real h + 1) * 3600) ts))
       [0..<nat n])"

section \<open>The mobility library and the module's free names\<close>

text \<open>
  \<^verbatim>\<open>stamp2datetime\<close> of the mobility library returns the list
  \<^verbatim>\<open>[year, month, day, hour, minute, second]\<close>; the record's fields are the list's
  positions 0 to 5.
\<close>

record time_list =
  year :: int
  month :: int
  day :: int
  hour :: int
  minute :: int
  second :: int

text \<open>
  The three functions \<^verbatim>\<open>gps_util.py\<close> imports from the mobility library. They are not
  code of this repository: every definition below takes them as a parameter.
  \<^verbatim>\<open>locate_home\<close> returns the coordinates of the home location, or raises (RuntimeError
  when the trajectory has no pause, flag 2, at night to locate it from).
\<close>

record forest =
  stamp2datetime :: "real \<Rightarrow> string \<Rightarrow> time_list"
  datetime2stamp :: "time_list \<Rightarrow> string \<Rightarrow> int"
  locate_home :: "traj \<Rightarrow> string \<Rightarrow> error + real \<times> real"

text \<open>
  \<^verbatim>\<open>gps_stats\<close> uses two names that it never assigns: \<^verbatim>\<open>great_circle_dist\<close> and
  \<^verbatim>\<open>temp\<close>. Python looks such a name up in the module's global namespace when the line
  runs and raises NameError when it is not bound. \<open>globals\<close> says what the namespace
  binds the two names to; \<open>module_globals\<close> is the namespace of \<^verbatim>\<open>gps_util.py\<close> as it
  is written: the module imports \<^verbatim>\<open>logging\<close>, \<^verbatim>\<open>np\<close>, \<^verbatim>\<open>pd\<close>, \<^verbatim>\<open>locate_home\<close>,
  \<^verbatim>\<open>datetime2stamp\<close> and \<^verbatim>\<open>stamp2datetime\<close>, and defines \<^verbatim>\<open>logger\<close> and its six
  functions, so neither name is bound.
\<close>

record globals =
  great_circle_dist :: "(fl \<Rightarrow> fl \<Rightarrow> fl \<Rightarrow> fl \<Rightarrow> fl) option"
  temp :: "traj option"

definition module_globals :: globals where
  "module_globals = \<lparr>great_circle_dist = None, temp = None\<rparr>"

section \<open>\<^verbatim>\<open>day_night_split\<close>\<close>

text \<open>
  \<^verbatim>\<open>
  hours = []
  for i in range(current_traj.shape[0]):
      time_list = stamp2datetime((current_traj[i, 3] + current_traj[i, 6]) / 2, timezone)
      hours.append(time_list[3])
  \<close>
\<close>

fun hours_loop :: "forest \<Rightarrow> string \<Rightarrow> traj \<Rightarrow> int list \<Rightarrow> int list" where
  "hours_loop fz timezone [] hours = hours"
| "hours_loop fz timezone (r # rs) hours =
     (let time_l = stamp2datetime fz ((t0 r + t1 r) / 2) timezone
      in hours_loop fz timezone rs (hours @ [hour time_l]))"

text \<open>
  \<^verbatim>\<open>
  hours_array = np.array(hours)
  day_index = (hours_array >= 8) * (hours_array <= 19)
  night_index = np.logical_not(day_index)
  return day_index, night_index
  \<close>
  The product of two boolean arrays is their pointwise conjunction.
\<close>

definition day_night_split :: "forest \<Rightarrow> traj \<Rightarrow> string \<Rightarrow> bool list \<times> bool list" where
  "day_night_split fz current_traj timezone =
     (let hours_array = hours_loop fz timezone current_traj [];
          day_index = map2 (\<lambda>a b. a \<and> b) (map (\<lambda>h. 8 \<le> h) hours_array) (map (\<lambda>h. h \<le> 19) hours_array);
          night_index = map Not day_index
      in (day_index, night_index))"

section \<open>\<^verbatim>\<open>gps_stats\<close>\<close>

text \<open>\<^verbatim>\<open>np.round(x, 0)\<close>: to the nearest integer, a tie to the even one.\<close>

definition round_half_even :: "real \<Rightarrow> real" where
  "round_half_even x =
     (let f = \<lfloor>x\<rfloor>; d = x - of_int f
      in of_int (if d < 1 / 2 then f else if 1 / 2 < d then f + 1 else if even f then f else f + 1))"

definition np_round :: "fl \<Rightarrow> fl" where
  "np_round v = (case v of Fin x \<Rightarrow> Fin (round_half_even x) | _ \<Rightarrow> v)"

text \<open>
  \<^verbatim>\<open>max(xs)\<close> of a non-empty sequence: the first item, replaced by each later item that
  is greater.
\<close>

definition py_max :: "fl list \<Rightarrow> fl" where
  "py_max xs = fold (\<lambda>v m. if fl_less m v then v else m) (tl xs) (hd xs)"

text \<open>
  One pass of the loop of \<^verbatim>\<open>gps_stats\<close> (window \<open>i\<close>), on the store \<open>h\<close>:
  \<^verbatim>\<open>
  start_time = start_stamp + i * window
  end_time = start_stamp + (i + 1) * window
  current_time_list = stamp2datetime(start_time, timezone)
  year, month, day, hour = current_time_list[:4]
  index_rows = (traj[:, 3] < end_time) * (traj[:, 6] > start_time)
  if sum(index_rows) == 0:
      res = [pd.NA for _ in df.columns[4:]]
      res = [year, month, day, hour] + res
      df.append(pd.Series(res, index=df.columns), ignore_index=True)
      continue
  current_traj = traj_smooth_ends(traj, start_time, end_time, index_rows)
  obs_dur = sum((current_traj[:, 6] - current_traj[:, 3])[current_traj[:, 7] == 1])
  if frequency == "daily":
      day_index, night_index = day_night_split(current_traj, timezone)
      obs_dur_day = sum((current_traj[day_index, 6] - current_traj[day_index, 3])[
                          current_traj[day_index, 7] == 1])
      obs_dur_night = sum((current_traj[night_index, 6] - current_traj[night_index, 3])[
                          current_traj[night_index, 7] == 1])
  mov_vec = np.round(great_circle_dist(current_traj[:, 4], current_traj[:, 5],
                                       current_traj[:, 1], current_traj[:, 2]), 0)
  dist_traveled = sum(mov_vec)
  d_home_1 = great_circle_dist(*home_coords, temp[:, 1], temp[:, 2])
  d_home_2 = great_circle_dist(*home_coords, temp[:, 4], temp[:, 5])
  d_home = (d_home_1 + d_home_2) / 2
  time_at_home = sum((current_traj[:, 6] - current_traj[:, 3])[d_home <= 50])
  max_dist_home = max(np.concatenate((d_home_1, d_home_2)))
  if frequency == "hourly":
      res = [year, month, day, hour, obs_dur, dist_traveled, time_at_home, max_dist_home]
      df.append(pd.Series(res, index=df.columns), ignore_index=True)
  else:
      res = [year, month, day, obs_dur, obs_dur_day, obs_dur_night,
             dist_traveled, time_at_home, max_dist_home]
      df.append(pd.Series(res, index=df.columns), ignore_index=True)
  \<close>
  \<^verbatim>\<open>df.append\<close> returns the longer dataframe and the loop drops it: the pass leaves \<open>df\<close>
  as it was, so its result is the store alone (or the exception). The names
  \<^verbatim>\<open>great_circle_dist\<close> and \<^verbatim>\<open>temp\<close> are looked up in \<open>g\<close>, the callee before its
  arguments.
\<close>

definition gps_window ::
  "forest \<Rightarrow> globals \<Rightarrow> heap \<Rightarrow> nat \<Rightarrow> cell dataframe \<Rightarrow> string \<Rightarrow> string \<Rightarrow> real \<times> real \<Rightarrow>
   int \<Rightarrow> int \<Rightarrow> int \<Rightarrow> error + heap" where
  "gps_window fz g h traj df frequency timezone home_coords start_stamp window i =
    (let start_time = start_stamp + i * window;
         end_time = start_stamp + (i + 1) * window;
         current_time_list = stamp2datetime fz (of_int start_time) timezone;
         ymdh = [Num (of_int (year current_time_list)), Num (of_int (month current_time_list)),
                 Num (of_int (day current_time_list)), Num (of_int (hour current_time_list))];
         index_rows = map (\<lambda>r. t0 r < of_int end_time \<and> of_int start_time < t1 r) (h ! traj)
     in if count_true index_rows = 0 then
          (case df_append df (ymdh @ map (\<lambda>_. NA) (drop 4 (columns df))) of
             Inl e \<Rightarrow> Inl e
           | Inr _ \<Rightarrow> Inr h)
        else
          (case traj_smooth_ends h traj (of_int start_time) (of_int end_time) index_rows of
             Inl e \<Rightarrow> Inl e
           | Inr (h1, c) \<Rightarrow>
              let current_traj = h1 ! c;
                  dur = (\<lambda>rs. map (\<lambda>r. t1 r - t0 r) rs);
                  observed = (\<lambda>rs. map (\<lambda>r. obs r = 1) rs);
                  obs_dur = sum_list (mask_select (dur current_traj) (observed current_traj));
                  day_night =
                    (if frequency = ''daily'' then
                       let (day_index, night_index) = day_night_split fz current_traj timezone;
                           dt = mask_select current_traj day_index;
                           nt = mask_select current_traj night_index
                       in Some (sum_list (mask_select (dur dt) (observed dt)),
                                sum_list (mask_select (dur nt) (observed nt)))
                     else None)
              in (case great_circle_dist g of
                   None \<Rightarrow> Inl (NameError ''great_circle_dist'')
                 | Some gcdist \<Rightarrow>
                    let mov_vec = map (\<lambda>r. np_round (gcdist (x1 r) (y1 r) (x0 r) (y0 r))) current_traj;
                        dist_traveled = fl_sum mov_vec
                    in (case temp g of
                         None \<Rightarrow> Inl (NameError ''temp'')
                       | Some tmp \<Rightarrow>
                          let d_home_1 = map (\<lambda>r. gcdist (Fin (fst home_coords)) (Fin (snd home_coords))
                                                       (x0 r) (y0 r)) tmp;
                              d_home_2 = map (\<lambda>r. gcdist (Fin (fst home_coords)) (Fin (snd home_coords))
                                                       (x1 r) (y1 r)) tmp;
                              d_home = map2 (\<lambda>a b. fl_mul (fl_add a b) (Fin (1 / 2))) d_home_1 d_home_2
                          in if length d_home \<noteq> length current_traj then Inl IndexError
                             else
                               let time_at_home =
                                     sum_list (mask_select (dur current_traj) (map (\<lambda>d. fl_le d (Fin 50)) d_home))
                               in if d_home_1 @ d_home_2 = []
                                  then Inl (ValueError ''max() arg is an empty sequence'')
                                  else
                                    let max_dist_home = py_max (d_home_1 @ d_home_2)
                                    in if frequency = ''hourly'' then
                                         (case df_append df
                                                 (ymdh @ [Num obs_dur, Val dist_traveled,
                                                          Num time_at_home, Val max_dist_home]) of
                                            Inl e \<Rightarrow> Inl e
                                          | Inr _ \<Rightarrow> Inr h1)
                                       else
                                         (case day_night of
                                            None \<Rightarrow> Inl (NameError ''obs_dur_day'')
                                          | Some (obs_dur_day, obs_dur_night) \<Rightarrow>
                                             (case df_append df
                                                     (take 3 ymdh @
                                                      [Num obs_dur, Num obs_dur_day, Num obs_dur_night,
                                                       Val dist_traveled, Num time_at_home,
                                                       Val max_dist_home]) of
                                                Inl e \<Rightarrow> Inl e
                                              | Inr _ \<Rightarrow> Inr h1))))))"

text \<open>\<^verbatim>\<open>for i in range(no_windows)\<close>, over the list of the windows still to visit.\<close>

fun gps_loop ::
  "forest \<Rightarrow> globals \<Rightarrow> heap \<Rightarrow> nat \<Rightarrow> cell dataframe \<Rightarrow> string \<Rightarrow> string \<Rightarrow> real \<times> real \<Rightarrow>
   int \<Rightarrow> int \<Rightarrow> int list \<Rightarrow> error + heap" where
  "gps_loop fz g h traj df frequency timezone home_coords start_stamp window [] = Inr h"
| "gps_loop fz g h traj df frequency timezone home_coords start_stamp window (i # rest) =
     (case gps_window fz g h traj df frequency timezone home_coords start_stamp window i of
        Inl e \<Rightarrow> Inl e
      | Inr h' \<Rightarrow> gps_loop fz g h' traj df frequency timezone home_coords start_stamp window rest)"

text \<open>
  \<^verbatim>\<open>
  obs_traj = traj[traj[:, 7] == 1, :]
  home_coords = locate_home(obs_traj, timezone)
  start_time_list = stamp2datetime(traj[0, 3], timezone)
  end_time_list = stamp2datetime(traj[-1, 6], timezone)
  if frequency == "hourly":
      start_time_list[4:6] = [0, 0]
      end_time_list[4:6] = [0, 0]
  else:
      start_time_list[3:6] = [0, 0, 0]
      end_time_list[3:6] = [0, 0, 0]
  start_stamp = datetime2stamp(start_time_list, timezone)
  end_stamp = datetime2stamp(end_time_list, timezone)
  window = 3600
  if frequency == "daily":
      window *= 24
  no_windows = (end_stamp - start_stamp) // window
  for i in range(no_windows): ...
  return df
  \<close>
\<close>

definition window_of :: "string \<Rightarrow> int" where
  "window_of frequency = (if frequency = ''daily'' then 3600 * 24 else 3600)"

definition truncate_list :: "string \<Rightarrow> time_list \<Rightarrow> time_list" where
  "truncate_list frequency time_l =
     (if frequency = ''hourly'' then time_l\<lparr>minute := 0, second := 0\<rparr>
      else time_l\<lparr>hour := 0, minute := 0, second := 0\<rparr>)"

definition start_stamp_of :: "forest \<Rightarrow> traj \<Rightarrow> string \<Rightarrow> string \<Rightarrow> int" where
  "start_stamp_of fz tr frequency timezone =
     datetime2stamp fz (truncate_list frequency (stamp2datetime fz (t0 (hd tr)) timezone)) timezone"

definition end_stamp_of :: "forest \<Rightarrow> traj \<Rightarrow> string \<Rightarrow> string \<Rightarrow> int" where
  "end_stamp_of fz tr frequency timezone =
     datetime2stamp fz (truncate_list frequency (stamp2datetime fz (t1 (last tr)) timezone)) timezone"

definition no_windows_of :: "forest \<Rightarrow> traj \<Rightarrow> string \<Rightarrow> string \<Rightarrow> int" where
  "no_windows_of fz tr frequency timezone =
     (end_stamp_of fz tr frequency timezone - start_stamp_of fz tr frequency timezone)
       div window_of frequency"

definition gps_stats ::
  "forest \<Rightarrow> globals \<Rightarrow> heap \<Rightarrow> nat \<Rightarrow> cell dataframe \<Rightarrow> string \<Rightarrow> string \<Rightarrow>
   error + (heap \<times> cell dataframe)" where
  "gps_stats fz g h traj df frequency timezone =
    (let obs_traj = mask_select (h ! traj) (map (\<lambda>r. obs r = 1) (h ! traj)) in
     (case locate_home fz obs_traj timezone of
        Inl e \<Rightarrow> Inl e
      | Inr home_coords \<Rightarrow>
         if h ! traj = [] then Inl IndexError
         else
           let start_stamp = start_stamp_of fz (h ! traj) frequency timezone;
               window = window_of frequency;
               no_windows = no_windows_of fz (h ! traj) frequency timezone
           in (case gps_loop fz g h traj df frequency timezone home_coords start_stamp window
                      (py_range no_windows) of
                 Inl e \<Rightarrow> Inl e
               | Inr h' \<Rightarrow> Inr (h', df))))"

section \<open>\<^verbatim>\<open>summary_stats\<close> and \<^verbatim>\<open>trajectory_statistics\<close>\<close>

text \<open>
  \<^verbatim>\<open>sum(xs)\<close> over a column: Python's loop, adding to 0 from the left. A sum with
  \<^verbatim>\<open>pd.NA\<close> is \<^verbatim>\<open>pd.NA\<close>; a sum with nan is nan.
\<close>

fun cell_add :: "cell \<Rightarrow> cell \<Rightarrow> cell" where
  "cell_add NA b = NA"
| "cell_add a NA = NA"
| "cell_add (Val a) (Val b) = Val (fl_add a b)"

definition py_sum :: "cell list \<Rightarrow> cell" where
  "py_sum xs = foldl cell_add (Num 0) xs"

text \<open>
  The values of a column that are not missing: a column's missing values are nan and
  \<^verbatim>\<open>pd.NA\<close>.
\<close>

fun present :: "cell list \<Rightarrow> fl list" where
  "present [] = []"
| "present (NA # cs) = present cs"
| "present (Val FNaN # cs) = present cs"
| "present (Val v # cs) = v # present cs"

text \<open>
  \<^verbatim>\<open>np.mean(column)\<close> and \<^verbatim>\<open>np.std(column)\<close> on a column of a dataframe: the numeric
  library hands both to the column's own \<^verbatim>\<open>mean\<close> and \<^verbatim>\<open>std\<close> (the latter with
  \<^verbatim>\<open>ddof=0\<close>), which leave the missing values out: the arithmetic mean of the values
  present, and the square root of the mean of their squared distances from it. Both are nan
  when no value is present.
\<close>

definition fl_mean :: "fl list \<Rightarrow> fl" where
  "fl_mean vs = fl_mul (fl_sum vs) (Fin (1 / real (length vs)))"

definition np_mean :: "cell list \<Rightarrow> cell" where
  "np_mean xs = (let vs = present xs in if vs = [] then NaN else Val (fl_mean vs))"

definition np_std :: "cell list \<Rightarrow> cell" where
  "np_std xs =
     (let vs = present xs in
      if vs = [] then NaN
      else
        let m = fl_mean vs
        in Val (fl_sqrt (fl_mean (map (\<lambda>x. fl_mul (fl_sub m x) (fl_sub m x)) vs))))"

text \<open>
  \<^verbatim>\<open>
  no_days = daily.shape[0]
  total_observed_time = sum(daily.observed_time)
  mean_dist_travelled = np.mean(daily.dist_travelled)
  sd_dist_travelled = np.std(daily.dist_travelled)
  mean_home_time = np.mean(daily.home_time)
  sd_home_time = np.std(daily.home_time)
  mean_home_max_dist = np.mean(daily.home_max_dist)
  sd_home_max_dist = np.std(daily.home_max_dist)
  summary.loc[0] = [no_days, total_observed_time, mean_dist_travelled, sd_dist_travelled,
                    mean_home_time, sd_home_time, mean_home_max_dist, sd_home_max_dist]
  return summary
  \<close>
\<close>

definition summary_stats :: "cell dataframe \<Rightarrow> cell dataframe \<Rightarrow> error + cell dataframe" where
  "summary_stats daily summary =
     (let no_days = length (rows daily) in
      (case column_of daily ''observed_time'' of Inl e \<Rightarrow> Inl e | Inr observed_time \<Rightarrow>
      (let total_observed_time = py_sum observed_time in
      (case column_of daily ''dist_travelled'' of Inl e \<Rightarrow> Inl e | Inr dist_travelled \<Rightarrow>
      (let mean_dist_travelled = np_mean dist_travelled;
           sd_dist_travelled = np_std dist_travelled in
      (case column_of daily ''home_time'' of Inl e \<Rightarrow> Inl e | Inr home_time \<Rightarrow>
      (let mean_home_time = np_mean home_time;
           sd_home_time = np_std home_time in
      (case column_of daily ''home_max_dist'' of Inl e \<Rightarrow> Inl e | Inr home_max_dist \<Rightarrow>
      (let mean_home_max_dist = np_mean home_max_dist;
           sd_home_max_dist = np_std home_max_dist
       in df_set_loc0 summary
            [Num (real no_days), total_observed_time, mean_dist_travelled, sd_dist_travelled,
             mean_home_time, sd_home_time, mean_home_max_dist, sd_home_max_dist])))))))))"

text \<open>
  \<^verbatim>\<open>
  hourly, daily, summary = df_list
  hourly = gps_stats(traj, hourly, "hourly", timezone)
  daily = gps_stats(traj, daily, "daily", timezone)
  summary = summary_stats(daily, summary)
  return [hourly, daily, summary]
  \<close>
\<close>

definition trajectory_statistics ::
  "forest \<Rightarrow> globals \<Rightarrow> heap \<Rightarrow> nat \<Rightarrow> cell dataframe list \<Rightarrow> string \<Rightarrow>
   error + (heap \<times> cell dataframe list)" where
  "trajectory_statistics fz g h traj df_list timezone =
     (if length df_list < 3 then Inl (ValueError ''not enough values to unpack (expected 3)'')
      else if 3 < length df_list then Inl (ValueError ''too many values to unpack (expected 3)'')
      else
        (case gps_stats fz g h traj (df_list ! 0) ''hourly'' timezone of
           Inl e \<Rightarrow> Inl e
         | Inr (h1, hourly) \<Rightarrow>
            (case gps_stats fz g h1 traj (df_list ! 1) ''daily'' timezone of
               Inl e \<Rightarrow> Inl e
             | Inr (h2, daily) \<Rightarrow>
                (case summary_stats daily (df_list ! 2) of
                   Inl e \<Rightarrow> Inl e
                 | Inr summary \<Rightarrow> Inr (h2, [hourly, daily, summary])))))"

text \<open>
  The statistics the specification names, of a column of numbers: its sum, its mean, and
  its standard deviation (of the whole population); nan stands for the mean and the
  deviation of the empty column, which has none.
\<close>

definition mean_of :: "real list \<Rightarrow> real" where
  "mean_of xs = (\<Sum>x\<leftarrow>xs. x) / real (length xs)"

definition sd_of :: "real list \<Rightarrow> real" where
  "sd_of xs = sqrt ((\<Sum>x\<leftarrow>xs. (x - mean_of xs)\<^sup>2) / real (length xs))"

definition stat :: "(real list \<Rightarrow> real) \<Rightarrow> real list \<Rightarrow> cell" where
  "stat f xs = (if xs = [] then NaN else Num (f xs))"

text \<open>
  For a column with missing values the specification's "sum" and "mean of the column" can
  be read in two ways: over the values present, or missing as soon as one value is.
\<close>

fun numbers_of :: "cell list \<Rightarrow> real list" where
  "numbers_of [] = []"
| "numbers_of (Val (Fin r) # cs) = r # numbers_of cs"
| "numbers_of (c # cs) = numbers_of cs"

definition has_missing :: "cell list \<Rightarrow> bool" where
  "has_missing cs = list_ex (\<lambda>c. c = NA \<or> c = NaN) cs"

definition sum_of_present :: "cell list \<Rightarrow> cell" where
  "sum_of_present cs = Num (sum_list (numbers_of cs))"

definition mean_or_missing :: "cell list \<Rightarrow> cell" where
  "mean_or_missing cs = (if has_missing cs then NaN else stat mean_of (numbers_of cs))"

section \<open>\<^verbatim>\<open>call_diarization_hf\<close>\<close>

text \<open>
  \<^verbatim>\<open>input_param\<close> of \<^verbatim>\<open>diarization_hf_utils.py\<close>, with the two keys the module reads. A
  tuple of arguments is the list of its components.
\<close>

record hf_param =
  parallel_processing :: int
  quantized :: bool

datatype pyval = PInt int | PStr string | PParam hf_param

text \<open>
  The body of \<^verbatim>\<open>process_chunk_hf\<close>, under its decorator:
  \<^verbatim>\<open>
  idx, prompt, input_param = args
  if input_param['quantized']: (load the quantized model) else: (load the model)
  input_data = apply_formatting(preprocess_str(prompt))
  ... result = tokenizer.decode(...)
  return idx, result
  \<close>
  Unpacking raises ValueError unless the tuple has three components. Loading the model,
  formatting the prompt and generating are calls into the language-model library and into
  a module that is not among the sources: \<open>generate\<close> stands for them, from the
  \<^verbatim>\<open>quantized\<close> flag and the prompt to the decoded text.
\<close>

definition process_chunk_body ::
  "(bool \<Rightarrow> string \<Rightarrow> error + string) \<Rightarrow> pyval list \<Rightarrow> error + (int \<times> string)" where
  "process_chunk_body generate args =
     (if length args < 3 then Inl (ValueError ''not enough values to unpack (expected 3)'')
      else if 3 < length args then Inl (ValueError ''too many values to unpack (expected 3)'')
      else
        (case (args ! 0, args ! 1, args ! 2) of
           (PInt idx, PStr prompt, PParam input_param) \<Rightarrow>
             (case generate (quantized input_param) prompt of
                Inl e \<Rightarrow> Inl e
              | Inr result \<Rightarrow> Inr (idx, result))
         | _ \<Rightarrow> Inl TypeError))"

text \<open>
  Modelled from the spec: the decorator \<^verbatim>\<open>exponential_backoff_decorator\<close> (module
  \<^verbatim>\<open>diarization_utils\<close>, not among the sources), "a generic exponential-backoff retry
  decorator": the call is made up to \<open>max_retries\<close> times, the first result is the
  result, and when every attempt has raised, the decorated call fails. The delays between
  attempts are not modelled.
\<close>

fun exponential_backoff :: "nat \<Rightarrow> ('a \<Rightarrow> error + 'b) \<Rightarrow> 'a \<Rightarrow> error + 'b" where
  "exponential_backoff 0 f x = Inl RetriesExhausted"
| "exponential_backoff (Suc n) f x =
     (case f x of Inr y \<Rightarrow> Inr y | Inl e \<Rightarrow> exponential_backoff n f x)"

text \<open>\<^verbatim>\<open>@exponential_backoff_decorator(max_retries=3, base_delay=90)\<close>\<close>

definition process_chunk_hf ::
  "(bool \<Rightarrow> string \<Rightarrow> error + string) \<Rightarrow> pyval list \<Rightarrow> error + (int \<times> string)" where
  "process_chunk_hf generate = exponential_backoff 3 (process_chunk_body generate)"

text \<open>
  A dictionary is the list of its items in insertion order, with distinct keys.
\<close>

type_synonym ('k, 'v) dict = "('k \<times> 'v) list"

definition dict_get :: "('k, 'v) dict \<Rightarrow> 'k \<Rightarrow> error + 'v" where
  "dict_get d k = (case map_of d k of None \<Rightarrow> Inl KeyError | Some v \<Rightarrow> Inr v)"

definition dict_set :: "('k, 'v) dict \<Rightarrow> 'k \<Rightarrow> 'v \<Rightarrow> ('k, 'v) dict" where
  "dict_set d k v =
     (if k \<in> fst ` set d then map (\<lambda>(k', v'). if k' = k then (k', v) else (k', v')) d
      else d @ [(k, v)])"

text \<open>\<^verbatim>\<open>dict(pairs)\<close>\<close>

definition dict_of :: "('k \<times> 'v) list \<Rightarrow> ('k, 'v) dict" where
  "dict_of pairs = fold (\<lambda>(k, v) d. dict_set d k v) pairs []"

text \<open>
  The tuple both branches build: \<^verbatim>\<open>(idx, prompts[idx], input_param, endpoint_name)\<close>.
\<close>

definition hf_args :: "int \<Rightarrow> string \<Rightarrow> hf_param \<Rightarrow> string \<Rightarrow> pyval list" where
  "hf_args idx prompt input_param endpoint_name =
     [PInt idx, PStr prompt, PParam input_param, PStr endpoint_name]"

text \<open>
  \<^verbatim>\<open>[(idx, prompts[idx], input_param, endpoint_name) for idx in sorted(prompts.keys())]\<close>
\<close>

fun build_args ::
  "(int, string) dict \<Rightarrow> hf_param \<Rightarrow> string \<Rightarrow> int list \<Rightarrow> error + pyval list list" where
  "build_args prompts input_param endpoint_name [] = Inr []"
| "build_args prompts input_param endpoint_name (idx # rest) =
     (case dict_get prompts idx of
        Inl e \<Rightarrow> Inl e
      | Inr p \<Rightarrow>
         (case build_args prompts input_param endpoint_name rest of
            Inl e \<Rightarrow> Inl e
          | Inr args \<Rightarrow> Inr (hf_args idx p input_param endpoint_name # args)))"

text \<open>
  \<^verbatim>\<open>pool.map(f, args)\<close>: the results in the order of the arguments; an exception raised
  by a call is raised by \<^verbatim>\<open>map\<close>.
\<close>

fun pool_map :: "('a \<Rightarrow> error + 'b) \<Rightarrow> 'a list \<Rightarrow> error + 'b list" where
  "pool_map f [] = Inr []"
| "pool_map f (x # xs) =
     (case f x of
        Inl e \<Rightarrow> Inl e
      | Inr y \<Rightarrow> (case pool_map f xs of Inl e \<Rightarrow> Inl e | Inr ys \<Rightarrow> Inr (y # ys)))"

text \<open>
  \<^verbatim>\<open>
  for idx in sorted(prompts.keys()):
      results[idx] = process_chunk_hf((idx, prompts[idx], input_param, endpoint_name))[1]
  \<close>
\<close>

fun sequential_loop ::
  "(bool \<Rightarrow> string \<Rightarrow> error + string) \<Rightarrow> (int, string) dict \<Rightarrow> hf_param \<Rightarrow> string \<Rightarrow>
   int list \<Rightarrow> (int, string) dict \<Rightarrow> error + (int, string) dict" where
  "sequential_loop generate prompts input_param endpoint_name [] results = Inr results"
| "sequential_loop generate prompts input_param endpoint_name (idx # rest) results =
     (case dict_get prompts idx of
        Inl e \<Rightarrow> Inl e
      | Inr p \<Rightarrow>
         (case process_chunk_hf generate (hf_args idx p input_param endpoint_name) of
            Inl e \<Rightarrow> Inl e
          | Inr r \<Rightarrow>
             sequential_loop generate prompts input_param endpoint_name rest
               (dict_set results idx (snd r))))"

text \<open>
  \<^verbatim>\<open>
  results = {}
  if input_param['parallel_processing'] == 1:
      with Pool(processes=len(prompts)) as pool:
          args = [(idx, prompts[idx], input_param, endpoint_name) for idx in sorted(prompts.keys())]
          results = pool.map(process_chunk_hf, args)
          results = dict(results)
  else:
      for idx in sorted(prompts.keys()):
          results[idx] = process_chunk_hf((idx, prompts[idx], input_param, endpoint_name))[1]
  return results
  \<close>
  \<^verbatim>\<open>Pool(processes=n)\<close> raises ValueError when \<open>n < 1\<close>.
\<close>

definition call_diarization_hf ::
  "(bool \<Rightarrow> string \<Rightarrow> error + string) \<Rightarrow> (int, string) dict \<Rightarrow> string \<Rightarrow> hf_param \<Rightarrow>
   error + (int, string) dict" where
  "call_diarization_hf generate prompts endpoint_name input_param =
     (if parallel_processing input_param = 1 then
        (if length prompts < 1 then Inl (ValueError ''Number of processes must be at least 1'')
         else
           (case build_args prompts input_param endpoint_name (sort (map fst prompts)) of
              Inl e \<Rightarrow> Inl e
            | Inr args \<Rightarrow>
               (case pool_map (process_chunk_hf generate) args of
                  Inl e \<Rightarrow> Inl e
                | Inr results \<Rightarrow> Inr (dict_of results))))
      else
        sequential_loop generate prompts input_param endpoint_name (sort (map fst prompts)) [])"

section \<open>\<^verbatim>\<open>speech_transcription_cloud\<close>\<close>

text \<open>
  The keyword arguments, each absent or given, with the types the docstring gives them;
  \<open>input_param\<close> is the dictionary \<^verbatim>\<open>read_kwargs\<close> builds.
\<close>

record kwargs =
  kw_model :: "string option"
  kw_language :: "string option"
  kw_region :: "string option"
  kw_job_name :: "string option"
  kw_ShowSpeakerLabels :: "bool option"
  kw_MaxSpeakerLabels :: "int option"
  kw_c_scale :: "string option"
  kw_access_key :: "string option"
  kw_secret_key :: "string option"

record input_param =
  model :: string
  language :: string
  region :: string
  job_name :: string
  ShowSpeakerLabels :: bool
  MaxSpeakerLabels :: int
  c_scale :: string
  access_key :: string
  secret_key :: string

text \<open>\<^verbatim>\<open>kwargs.get(key, default)\<close>\<close>

definition kw_get :: "'a option \<Rightarrow> 'a \<Rightarrow> 'a" where
  "kw_get v dflt = (case v of None \<Rightarrow> dflt | Some x \<Rightarrow> x)"

definition read_kwargs :: "kwargs \<Rightarrow> input_param" where
  "read_kwargs kwargs =
     \<lparr>model = kw_get (kw_model kwargs) ''pyannote'',
      language = kw_get (kw_language kwargs) ''en-US'',
      region = kw_get (kw_region kwargs) ''us-east-1'',
      job_name = kw_get (kw_job_name kwargs) ''transcribe_job_01'',
      ShowSpeakerLabels = kw_get (kw_ShowSpeakerLabels kwargs) True,
      MaxSpeakerLabels = kw_get (kw_MaxSpeakerLabels kwargs) 2,
      c_scale = kw_get (kw_c_scale kwargs) [],
      access_key = kw_get (kw_access_key kwargs) [],
      secret_key = kw_get (kw_secret_key kwargs) []\<rparr>"

text \<open>
  The three functions of \<^verbatim>\<open>transcribe_util\<close> the module calls; the module is not among
  the sources, so they are parameters. \<open>'j\<close> is the type of a JSON response, \<open>'c\<close> of the
  extracted content, \<open>'m\<close> of the loaded configuration.
\<close>

record ('j, 'c, 'm) tutil =
  transcribe_audio :: "string \<Rightarrow> input_param \<Rightarrow> error + ('j \<times> string)"
  extract_content :: "'j \<Rightarrow> error + 'c"
  get_clinical_labels :: "string \<Rightarrow> 'm \<Rightarrow> 'c \<Rightarrow> 'j \<Rightarrow> error + 'j"

text \<open>
  \<^verbatim>\<open>
  input_param = read_kwargs(kwargs)
  measures = get_config()
  json_response, transcript = tutil.transcribe_audio(filepath, input_param)
  if input_param['ShowSpeakerLabels'] == True and input_param['c_scale']:
      content_dict = tutil.extract_content(json_response)
      json_response = tutil.get_clinical_labels(input_param['c_scale'], measures,
                                                content_dict, json_response)
  return json_response, transcript
  \<close>
  \<open>get_config\<close> is what loading \<^verbatim>\<open>config/speech.json\<close> gives: the configuration, or the
  exception.
\<close>

definition speech_transcription_cloud ::
  "('j, 'c, 'm) tutil \<Rightarrow> error + 'm \<Rightarrow> string \<Rightarrow> kwargs \<Rightarrow> error + ('j \<times> string)" where
  "speech_transcription_cloud tu get_config filepath kwargs =
     (let input_param = read_kwargs kwargs in
      (case get_config of
         Inl e \<Rightarrow> Inl e
       | Inr measures_cfg \<Rightarrow>
          (case transcribe_audio tu filepath input_param of
             Inl e \<Rightarrow> Inl e
           | Inr (json_response, transcript) \<Rightarrow>
              if ShowSpeakerLabels input_param = True \<and> c_scale input_param \<noteq> [] then
                (case extract_content tu json_response of
                   Inl e \<Rightarrow> Inl e
                 | Inr content_dict \<Rightarrow>
                    (case get_clinical_labels tu (c_scale input_param) measures_cfg content_dict
                            json_response of
                       Inl e \<Rightarrow> Inl e
                     | Inr labelled \<Rightarrow> Inr (labelled, transcript)))
              else Inr (json_response, transcript))))"

section \<open>The mobility library at timezone UTC\<close>

text \<open>
  For concrete inputs: what \<^verbatim>\<open>stamp2datetime\<close> and \<^verbatim>\<open>datetime2stamp\<close> compute for the
  timezone \<^verbatim>\<open>UTC\<close>, the proleptic Gregorian calendar on Unix time. \<open>civil_from_days\<close>
  is the date of a day number (day 0 is 1970-01-01), \<open>days_from_civil\<close> its inverse.
\<close>

definition civil_from_days :: "int \<Rightarrow> int \<times> int \<times> int" where
  "civil_from_days dn =
     (let z = dn + 719468;
          era = z div 146097;
          doe = z - era * 146097;
          yoe = (doe - doe div 1460 + doe div 36524 - doe div 146096) div 365;
          y = yoe + era * 400;
          doy = doe - (365 * yoe + yoe div 4 - yoe div 100);
          mp = (5 * doy + 2) div 153;
          d = doy - (153 * mp + 2) div 5 + 1;
          m = (if mp < 10 then mp + 3 else mp - 9)
      in (if m \<le> 2 then y + 1 else y, m, d))"

definition days_from_civil :: "int \<Rightarrow> int \<Rightarrow> int \<Rightarrow> int" where
  "days_from_civil yr m d =
     (let y = (if m \<le> 2 then yr - 1 else yr);
          era = y div 400;
          yoe = y - era * 400;
          doy = (153 * (if 2 < m then m - 3 else m + 9) + 2) div 5 + d - 1;
          doe = yoe * 365 + yoe div 4 - yoe div 100 + doy
      in era * 146097 + doe - 719468)"

definition utc_stamp2datetime :: "real \<Rightarrow> string \<Rightarrow> time_list" where
  "utc_stamp2datetime stamp timezone =
     (let s = \<lfloor>stamp\<rfloor>;
          r = s mod 86400;
          (y, m, d) = civil_from_days (s div 86400)
      in \<lparr>year = y, month = m, day = d,
          hour = r div 3600, minute = (r mod 3600) div 60, second = r mod 60\<rparr>)"

definition utc_datetime2stamp :: "time_list \<Rightarrow> string \<Rightarrow> int" where
  "utc_datetime2stamp time_l timezone =
     days_from_civil (year time_l) (month time_l) (day time_l) * 86400
       + hour time_l * 3600 + minute time_l * 60 + second time_l"

definition utc_forest :: "(traj \<Rightarrow> string \<Rightarrow> error + real \<times> real) \<Rightarrow> forest" where
  "utc_forest home =
     \<lparr>stamp2datetime = utc_stamp2datetime, datetime2stamp = utc_datetime2stamp,
      locate_home = home\<rparr>"

section \<open>The array store and the smoothed sub-trajectory\<close>

lemma length_mask_select:
  "length xs = length m \<Longrightarrow> length (mask_select xs m) = count_true m"
proof (induction xs m rule: list_induct2)
  case Nil
  then show ?case by (simp add: mask_select_def count_true_def)
next
  case (Cons x xs b m)
  then show ?case by (simp add: mask_select_def count_true_def)
qed

lemma setitem_alloc: "setitem (h @ [a]) (length h) i f = h @ [a[i := f (a ! i)]]"
  by (simp add: setitem_def)

lemma getitem_alloc: "getitem (h @ [a]) (length h) i = a ! i"
  by (simp add: getitem_def)


lemma tse_single:
  assumes len: "length m = length (h ! traj)" and one: "count_true m = 1"
    and sel: "mask_select (h ! traj) m = [r]"
  shows "traj_smooth_ends h traj s e m =
           Inr (h @ [[r\<lparr>x0 := fl_add (fl_mul (fl_sub (Fin 1) (fdiv (s - t0 r) (t1 r - t0 r))) (x0 r)) (fl_mul (fdiv (s - t0 r) (t1 r - t0 r)) (x1 r)),
                       y0 := fl_add (fl_mul (fl_sub (Fin 1) (fdiv (s - t0 r) (t1 r - t0 r))) (y0 r)) (fl_mul (fdiv (s - t0 r) (t1 r - t0 r)) (y1 r)),
                       t0 := s,
                       x1 := fl_add (fl_mul (fl_sub (Fin 1) (fdiv (e - t0 r) (t1 r - t0 r))) (x0 r)) (fl_mul (fdiv (e - t0 r) (t1 r - t0 r)) (x1 r)),
                       y1 := fl_add (fl_mul (fl_sub (Fin 1) (fdiv (e - t0 r) (t1 r - t0 r))) (y0 r)) (fl_mul (fdiv (e - t0 r) (t1 r - t0 r)) (y1 r)),
                       t1 := e\<rparr>]], length h)"
  using len one sel
  by (simp add: traj_smooth_ends_def alloc_def setitem_alloc getitem_alloc Let_def)

lemma tse_multi:
  assumes len: "length m = length (h ! traj)" and many: "2 \<le> count_true m"
    and sel: "mask_select (h ! traj) m = a"
  shows "traj_smooth_ends h traj s e m =
           Inr (h @ [a[0 := (a ! 0)\<lparr>x0 := fl_add (fl_mul (fl_sub (Fin 1) (fdiv (t1 (a ! 0) - s) (t1 (a ! 0) - t0 (a ! 0)))) (x1 (a ! 0))) (fl_mul (fdiv (t1 (a ! 0) - s) (t1 (a ! 0) - t0 (a ! 0))) (x0 (a ! 0))),
                                   y0 := fl_add (fl_mul (fl_sub (Fin 1) (fdiv (t1 (a ! 0) - s) (t1 (a ! 0) - t0 (a ! 0)))) (y1 (a ! 0))) (fl_mul (fdiv (t1 (a ! 0) - s) (t1 (a ! 0) - t0 (a ! 0))) (y0 (a ! 0))),
                                   t0 := s\<rparr>,
                      length a - 1 := (a ! (length a - 1))
                                  \<lparr>x1 := fl_add (fl_mul (fl_sub (Fin 1) (fdiv (e - t0 (a ! (length a - 1))) (t1 (a ! (length a - 1)) - t0 (a ! (length a - 1))))) (x0 (a ! (length a - 1)))) (fl_mul (fdiv (e - t0 (a ! (length a - 1))) (t1 (a ! (length a - 1)) - t0 (a ! (length a - 1)))) (x1 (a ! (length a - 1)))),
                                   y1 := fl_add (fl_mul (fl_sub (Fin 1) (fdiv (e - t0 (a ! (length a - 1))) (t1 (a ! (length a - 1)) - t0 (a ! (length a - 1))))) (y0 (a ! (length a - 1)))) (fl_mul (fdiv (e - t0 (a ! (length a - 1))) (t1 (a ! (length a - 1)) - t0 (a ! (length a - 1)))) (y1 (a ! (length a - 1)))),
                                   t1 := e\<rparr>]], length h)"
proof -
  have la: "length a = count_true m" using length_mask_select[of "h ! traj" m] len sel by simp
  then have l2: "2 \<le> length a" using many by simp
  then have ne: "length a - 1 \<noteq> 0" "0 < length a" "length a - 1 < length a" "a \<noteq> []" by auto
  show ?thesis
    using len many sel la l2 ne
    by (simp add: traj_smooth_ends_def alloc_def setitem_alloc getitem_alloc Let_def
        list_update_overwrite list_update_swap[of 0 "length a - 1"])
qed

lemma tse_badmask:
  "length m \<noteq> length (h ! traj) \<Longrightarrow> traj_smooth_ends h traj s e m = Inl IndexError"
  by (simp add: traj_smooth_ends_def)

lemma tse_zero:
  assumes len: "length m = length (h ! traj)" and zero: "count_true m = 0"
  shows "traj_smooth_ends h traj s e m = Inl IndexError"
proof -
  have "length (mask_select (h ! traj) m) = 0"
    using length_mask_select[of "h ! traj" m] len zero by simp
  then show ?thesis
    using len zero by (simp add: traj_smooth_ends_def alloc_def)
qed

lemma tse_shape:
  assumes "traj_smooth_ends h traj s e m = Inr (h1, c)"
  shows "c = length h \<and> (\<exists>a. h1 = h @ [a])"
proof -
  have len: "length m = length (h ! traj)"
    using assms tse_badmask[of m h traj s e] by (cases "length m = length (h ! traj)") auto
  have nz: "count_true m \<noteq> 0"
    using assms tse_zero[OF len, of s e] by (cases "count_true m = 0") auto
  show ?thesis
  proof (cases "count_true m = 1")
    case True
    then have "length (mask_select (h ! traj) m) = 1"
      using length_mask_select[of "h ! traj" m] len by simp
    then obtain r where "mask_select (h ! traj) m = [r]"
      by (cases "mask_select (h ! traj) m") auto
    from tse_single[OF len True this, of s e] assms show ?thesis by auto
  next
    case False
    with nz have "2 \<le> count_true m" by simp
    from tse_multi[OF len this refl, of s e] assms show ?thesis by auto
  qed
qed

lemma tse_depends_on_traj_only:
  assumes eq: "h ! traj = k ! traj"
  shows "returned_array (traj_smooth_ends h traj s e m) =
         returned_array (traj_smooth_ends k traj s e m)"
proof (cases "length m = length (h ! traj)")
  case False
  then show ?thesis using eq by (simp add: tse_badmask)
next
  case len: True
  then have lenk: "length m = length (k ! traj)" using eq by simp
  consider "count_true m = 0" | "count_true m = 1" | "2 \<le> count_true m" by linarith
  then show ?thesis
  proof cases
    case 1
    then show ?thesis using len lenk by (simp add: tse_zero)
  next
    case 2
    then have "length (mask_select (h ! traj) m) = 1"
      using length_mask_select[of "h ! traj" m] len by simp
    then obtain r where r: "mask_select (h ! traj) m = [r]"
      by (cases "mask_select (h ! traj) m") auto
    then have rk: "mask_select (k ! traj) m = [r]" using eq by simp
    show ?thesis
      by (simp add: tse_single[OF len 2 r] tse_single[OF lenk 2 rk] returned_array_def)
  next
    case 3
    have a: "mask_select (k ! traj) m = mask_select (h ! traj) m" using eq by simp
    show ?thesis
      by (simp add: tse_multi[OF len 3 refl] tse_multi[OF lenk 3 a] returned_array_def)
  qed
qed

lemma convex_comb: "(1 - p) * a + p * b = a + p * (b - a)" for p a b :: real
  by (simp add: algebra_simps)

lemma lerp_start: "(1 - (t - ta) / (tb - ta)) * xa + (t - ta) / (tb - ta) * xb = lerp ta xa tb xb t"
  unfolding lerp_def by (rule convex_comb)

lemma lerp_from_end:
  assumes "ta \<noteq> tb"
  shows "(1 - (tb - t) / (tb - ta)) * xb + (tb - t) / (tb - ta) * xa = lerp ta xa tb xb t"
proof -
  have p: "(tb - t) / (tb - ta) = 1 - (t - ta) / (tb - ta)"
    using assms by (simp add: field_simps)
  have "(1 - (1 - (t - ta) / (tb - ta))) * xb + (1 - (t - ta) / (tb - ta)) * xa
          = xa + (t - ta) / (tb - ta) * (xb - xa)"
    by (simp only: algebra_simps)
  then show ?thesis unfolding lerp_def p .
qed



lemma fdiv_fin: "b \<noteq> 0 \<Longrightarrow> fdiv a b = Fin (a / b)"
  by (simp add: fdiv_def)

lemma interp_fin:
  "fl_add (fl_mul (fl_sub (Fin 1) (Fin p)) (Fin a)) (fl_mul (Fin p) (Fin b)) = Fin ((1 - p) * a + p * b)"
  by (simp add: fl_sub_def)

lemma interp_start:
  assumes "ta \<noteq> tb" "is_Fin xa" "is_Fin xb"
  shows "fl_add (fl_mul (fl_sub (Fin 1) (fdiv (t - ta) (tb - ta))) xa) (fl_mul (fdiv (t - ta) (tb - ta)) xb)
           = Fin (lerp ta (the_fin xa) tb (the_fin xb) t)"
proof -
  obtain a b where ab: "xa = Fin a" "xb = Fin b"
    using assms by (cases xa; cases xb) auto
  have nz: "tb - ta \<noteq> 0" using assms by simp
  show ?thesis
    unfolding ab fdiv_fin[OF nz] interp_fin by (simp only: fl.sel lerp_start)
qed

lemma interp_from_end:
  assumes "ta \<noteq> tb" "is_Fin xa" "is_Fin xb"
  shows "fl_add (fl_mul (fl_sub (Fin 1) (fdiv (tb - t) (tb - ta))) xb) (fl_mul (fdiv (tb - t) (tb - ta)) xa)
           = Fin (lerp ta (the_fin xa) tb (the_fin xb) t)"
proof -
  obtain a b where ab: "xa = Fin a" "xb = Fin b"
    using assms by (cases xa; cases xb) auto
  have nz: "tb - ta \<noteq> 0" using assms by simp
  show ?thesis
    unfolding ab fdiv_fin[OF nz] interp_fin by (simp only: fl.sel lerp_from_end[OF assms(1)])
qed

lemma smoothed_single:
  "smoothed [r] s e =
     [r\<lparr>x0 := Fin (lerp (t0 r) (the_fin (x0 r)) (t1 r) (the_fin (x1 r)) s),
        y0 := Fin (lerp (t0 r) (the_fin (y0 r)) (t1 r) (the_fin (y1 r)) s),
        t0 := s,
        x1 := Fin (lerp (t0 r) (the_fin (x0 r)) (t1 r) (the_fin (x1 r)) e),
        y1 := Fin (lerp (t0 r) (the_fin (y0 r)) (t1 r) (the_fin (y1 r)) e),
        t1 := e\<rparr>]"
  by (simp add: smoothed_def Let_def)

lemma smoothed_multi:
  assumes "2 \<le> length a"
  shows "smoothed a s e =
     a[0 := (a ! 0)\<lparr>x0 := Fin (lerp (t0 (a ! 0)) (the_fin (x0 (a ! 0))) (t1 (a ! 0)) (the_fin (x1 (a ! 0))) s),
                   y0 := Fin (lerp (t0 (a ! 0)) (the_fin (y0 (a ! 0))) (t1 (a ! 0)) (the_fin (y1 (a ! 0))) s),
                   t0 := s\<rparr>,
       length a - 1 := (a ! (length a - 1))
                  \<lparr>x1 := Fin (lerp (t0 (a ! (length a - 1))) (the_fin (x0 (a ! (length a - 1))))
                                (t1 (a ! (length a - 1))) (the_fin (x1 (a ! (length a - 1)))) e),
                   y1 := Fin (lerp (t0 (a ! (length a - 1))) (the_fin (y0 (a ! (length a - 1))))
                                (t1 (a ! (length a - 1))) (the_fin (y1 (a ! (length a - 1)))) e),
                   t1 := e\<rparr>]"
proof -
  have ne: "a \<noteq> []" "length a - 1 \<noteq> 0" "0 < length a" "length a - 1 < length a"
    using assms by auto
  show ?thesis
    using ne by (simp add: smoothed_def Let_def hd_conv_nth last_conv_nth)
qed

lemma smoothed_ends:
  assumes "sel \<noteq> []"
  shows "length (smoothed sel s e) = length sel \<and>
         t0 (hd (smoothed sel s e)) = s \<and>
         t1 (last (smoothed sel s e)) = e \<and>
         x0 (hd (smoothed sel s e)) =
           Fin (lerp (t0 (hd sel)) (the_fin (x0 (hd sel))) (t1 (hd sel)) (the_fin (x1 (hd sel))) s) \<and>
         y0 (hd (smoothed sel s e)) =
           Fin (lerp (t0 (hd sel)) (the_fin (y0 (hd sel))) (t1 (hd sel)) (the_fin (y1 (hd sel))) s) \<and>
         x1 (last (smoothed sel s e)) =
           Fin (lerp (t0 (last sel)) (the_fin (x0 (last sel))) (t1 (last sel)) (the_fin (x1 (last sel))) e) \<and>
         y1 (last (smoothed sel s e)) =
           Fin (lerp (t0 (last sel)) (the_fin (y0 (last sel))) (t1 (last sel)) (the_fin (y1 (last sel))) e)"
proof (cases "length sel = 1")
  case True
  then obtain r where r: "sel = [r]" by (cases sel) auto
  show ?thesis unfolding r smoothed_single by simp
next
  case False
  moreover have "0 < length sel" using assms by simp
  ultimately have l2: "2 \<le> length sel" by linarith
  then have ne: "length sel - 1 \<noteq> 0" "0 < length sel" "length sel - 1 < length sel" by auto
  show ?thesis
    unfolding smoothed_multi[OF l2]
    using ne assms by (simp add: hd_conv_nth last_conv_nth)
qed

lemma tse_smoothed:
  assumes len: "length index_rows = length (h ! traj)"
    and some: "1 \<le> count_true index_rows"
    and sel: "sel = mask_select (h ! traj) index_rows"
    and d0: "t0 (hd sel) \<noteq> t1 (hd sel)"
    and d1: "t0 (last sel) \<noteq> t1 (last sel)"
    and f0: "is_Fin (x0 (hd sel))" "is_Fin (y0 (hd sel))" "is_Fin (x1 (hd sel))" "is_Fin (y1 (hd sel))"
    and f1: "is_Fin (x0 (last sel))" "is_Fin (y0 (last sel))" "is_Fin (x1 (last sel))" "is_Fin (y1 (last sel))"
  shows "traj_smooth_ends h traj start_time end_time index_rows =
           Inr (h @ [smoothed sel start_time end_time], length h)"
proof (cases "count_true index_rows = 1")
  case True
  then have "length sel = 1"
    using length_mask_select[of "h ! traj" index_rows] len sel by simp
  then obtain r where r: "sel = [r]" by (cases sel) auto
  then have r': "mask_select (h ! traj) index_rows = [r]" using sel by simp
  have d: "t0 r \<noteq> t1 r" and f: "is_Fin (x0 r)" "is_Fin (y0 r)" "is_Fin (x1 r)" "is_Fin (y1 r)"
    using d0 f0 r by simp_all
  show ?thesis
    unfolding tse_single[OF len True r'] r smoothed_single
    by (simp only: interp_start[OF d f(1) f(3)] interp_start[OF d f(2) f(4)])
next
  case False
  with some have many: "2 \<le> count_true index_rows" by simp
  have la: "length sel = count_true index_rows"
    using length_mask_select[of "h ! traj" index_rows] len sel by simp
  then have l2: "2 \<le> length sel" using many by simp
  then have ne: "sel \<noteq> []" by auto
  have hd0: "hd sel = sel ! 0" using ne by (simp add: hd_conv_nth)
  have lst: "last sel = sel ! (length sel - 1)" using ne by (simp add: last_conv_nth)
  note a0 = d0[unfolded hd0] f0[unfolded hd0]
  note a1 = d1[unfolded lst] f1[unfolded lst]
  show ?thesis
    unfolding tse_multi[OF len many sel[symmetric]] smoothed_multi[OF l2]
    by (simp only: interp_from_end[OF a0(1) a0(2) a0(4)] interp_from_end[OF a0(1) a0(3) a0(5)]
                   interp_start[OF a1(1) a1(2) a1(4)] interp_start[OF a1(1) a1(3) a1(5)])
qed

section \<open>C2: smoothing aligns the sub-trajectory with the window\<close>

text \<open>
  C2, as amended. For a window \<open>[start_time, end_time]\<close> and a boolean selection with at
  least one selected segment, whose first and last selected segments have a duration
  other than zero and finite coordinates, \<^verbatim>\<open>traj_smooth_ends\<close> returns the selected rows
  with the first row starting at \<open>start_time\<close> (column 3) and the last row ending at
  \<open>end_time\<close> (column 6); the start coordinates of the first row and the end coordinates
  of the last row are the linear interpolation of that segment's original start and end
  coordinates at \<open>start_time\<close> and at \<open>end_time\<close>. Every other row and every other field
  is as selected (\<open>smoothed\<close>). This covers the branch for one selected segment and the
  branch for several.
\<close>

theorem traj_smooth_ends_aligned:
  assumes len: "length index_rows = length (h ! traj)"
    and some: "1 \<le> count_true index_rows"
    and sel: "sel = mask_select (h ! traj) index_rows"
    and d0: "t0 (hd sel) \<noteq> t1 (hd sel)"
    and d1: "t0 (last sel) \<noteq> t1 (last sel)"
    and f0: "is_Fin (x0 (hd sel))" "is_Fin (y0 (hd sel))" "is_Fin (x1 (hd sel))" "is_Fin (y1 (hd sel))"
    and f1: "is_Fin (x0 (last sel))" "is_Fin (y0 (last sel))" "is_Fin (x1 (last sel))" "is_Fin (y1 (last sel))"
  shows "\<exists>h1 c. traj_smooth_ends h traj start_time end_time index_rows = Inr (h1, c) \<and>
           h1 ! c = smoothed sel start_time end_time \<and>
           length (h1 ! c) = length sel \<and>
           t0 (hd (h1 ! c)) = start_time \<and>
           t1 (last (h1 ! c)) = end_time \<and>
           x0 (hd (h1 ! c)) =
             Fin (lerp (t0 (hd sel)) (the_fin (x0 (hd sel))) (t1 (hd sel)) (the_fin (x1 (hd sel))) start_time) \<and>
           y0 (hd (h1 ! c)) =
             Fin (lerp (t0 (hd sel)) (the_fin (y0 (hd sel))) (t1 (hd sel)) (the_fin (y1 (hd sel))) start_time) \<and>
           x1 (last (h1 ! c)) =
             Fin (lerp (t0 (last sel)) (the_fin (x0 (last sel))) (t1 (last sel)) (the_fin (x1 (last sel))) end_time) \<and>
           y1 (last (h1 ! c)) =
             Fin (lerp (t0 (last sel)) (the_fin (y0 (last sel))) (t1 (last sel)) (the_fin (y1 (last sel))) end_time)"
proof -
  have "length sel = count_true index_rows"
    using length_mask_select[of "h ! traj" index_rows] len sel by simp
  then have ne: "sel \<noteq> []" using some by auto
  show ?thesis
    unfolding tse_smoothed[OF assms]
    using smoothed_ends[OF ne, of start_time end_time] by simp
qed

theorem traj_smooth_ends_aligned_witness:
  "\<exists>h1 c. traj_smooth_ends [[\<lparr>flag = 1, x0 = Fin 10, y0 = Fin 20, t0 = 1800, x1 = Fin 30, y1 = Fin 60, t1 = 5400, obs = 1\<rparr>, \<lparr>flag = 1, x0 = Fin 30, y0 = Fin 60, t0 = 5400, x1 = Fin 50, y1 = Fin 100, t1 = 9000, obs = 1\<rparr>]] 0 3600 7200 [True, True] = Inr (h1, c) \<and>
       h1 ! c =
         [\<lparr>flag = 1, x0 = Fin 20, y0 = Fin 40, t0 = 3600, x1 = Fin 30, y1 = Fin 60, t1 = 5400, obs = 1\<rparr>,
          \<lparr>flag = 1, x0 = Fin 30, y0 = Fin 60, t0 = 5400, x1 = Fin 40, y1 = Fin 80, t1 = 7200, obs = 1\<rparr>]"
proof -
  have "\<exists>h1 c. traj_smooth_ends [[\<lparr>flag = 1, x0 = Fin 10, y0 = Fin 20, t0 = 1800, x1 = Fin 30, y1 = Fin 60, t1 = 5400, obs = 1\<rparr>, \<lparr>flag = 1, x0 = Fin 30, y0 = Fin 60, t0 = 5400, x1 = Fin 50, y1 = Fin 100, t1 = 9000, obs = 1\<rparr>]] 0 3600 7200 [True, True] = Inr (h1, c) \<and>
       h1 ! c = smoothed [\<lparr>flag = 1, x0 = Fin 10, y0 = Fin 20, t0 = 1800, x1 = Fin 30, y1 = Fin 60, t1 = 5400, obs = 1\<rparr>, \<lparr>flag = 1, x0 = Fin 30, y0 = Fin 60, t0 = 5400, x1 = Fin 50, y1 = Fin 100, t1 = 9000, obs = 1\<rparr>] 3600 7200"
    using traj_smooth_ends_aligned
          [of "[True, True]" "[[\<lparr>flag = 1, x0 = Fin 10, y0 = Fin 20, t0 = 1800, x1 = Fin 30, y1 = Fin 60, t1 = 5400, obs = 1\<rparr>, \<lparr>flag = 1, x0 = Fin 30, y0 = Fin 60, t0 = 5400, x1 = Fin 50, y1 = Fin 100, t1 = 9000, obs = 1\<rparr>]]" 0 "[\<lparr>flag = 1, x0 = Fin 10, y0 = Fin 20, t0 = 1800, x1 = Fin 30, y1 = Fin 60, t1 = 5400, obs = 1\<rparr>, \<lparr>flag = 1, x0 = Fin 30, y0 = Fin 60, t0 = 5400, x1 = Fin 50, y1 = Fin 100, t1 = 9000, obs = 1\<rparr>]" 3600 7200]
    by (simp add: mask_select_def count_true_def) blast
  then show ?thesis
    by (simp add: smoothed_def lerp_def Let_def)
qed

text \<open>
  C2 as stated fails on a segment of zero duration. The pause at \<open>t = 1800\<close> overlaps the
  window from 0 to 3600 (\<open>t0 < 3600\<close> and \<open>0 < t1\<close>, the test of \<^verbatim>\<open>gps_stats\<close>), and it is
  the one selected row; \<open>p0\<close> is minus infinity and \<open>p1\<close> is infinity, and all four
  boundary coordinates of the returned row are nan, no interpolated point.
\<close>

theorem traj_smooth_ends_zero_duration_counterexample:
  "returned_array (traj_smooth_ends [[\<lparr>flag = 2, x0 = Fin 10, y0 = Fin 20, t0 = 1800, x1 = Fin 10, y1 = Fin 20, t1 = 1800, obs = 1\<rparr>]] 0 0 3600 [True])
     = Inr [\<lparr>flag = 2, x0 = FNaN, y0 = FNaN, t0 = 0, x1 = FNaN, y1 = FNaN, t1 = 3600, obs = 1\<rparr>] \<and>
   count_true [True] = 1 \<and> t0 \<lparr>flag = 2, x0 = Fin 10, y0 = Fin 20, t0 = 1800, x1 = Fin 10, y1 = Fin 20, t1 = 1800, obs = 1\<rparr> < 3600 \<and> 0 < t1 \<lparr>flag = 2, x0 = Fin 10, y0 = Fin 20, t0 = 1800, x1 = Fin 10, y1 = Fin 20, t1 = 1800, obs = 1\<rparr>"
  by (simp add: traj_smooth_ends_def alloc_def mask_select_def count_true_def setitem_def getitem_def
      returned_array_def fdiv_def fl_sub_def inf_times_def Let_def)

section \<open>C9: smoothing leaves the input trajectory as it was\<close>

text \<open>
  C9. \<^verbatim>\<open>traj_smooth_ends\<close> does not modify its input: after a call that returns, the
  array \<open>traj\<close> refers to holds what it held before, and so does every array that
  existed before the call (the selection by a boolean mask is a new array, and all
  writes go to it). Hence smoothing for one window changes nothing for another: a later
  call for any window \<open>s'\<close>, \<open>e'\<close>, \<open>m'\<close> returns the same sub-trajectory as it would have
  returned before the first call.
\<close>

theorem traj_smooth_ends_frame:
  assumes ref: "traj < length h"
    and call: "traj_smooth_ends h traj s e m = Inr (h1, c)"
  shows "h1 ! traj = h ! traj \<and> take (length h) h1 = h \<and> c = length h \<and>
         returned_array (traj_smooth_ends h1 traj s' e' m') =
         returned_array (traj_smooth_ends h traj s' e' m')"
proof -
  from tse_shape[OF call] obtain a where c: "c = length h" and h1: "h1 = h @ [a]" by blast
  have same: "h1 ! traj = h ! traj" using h1 ref by (simp add: nth_append)
  show ?thesis
    using same h1 c tse_depends_on_traj_only[OF same, of s' e' m'] by simp
qed



theorem traj_smooth_ends_frame_witness:
  "(let h = [[\<lparr>flag = 1, x0 = Fin 10, y0 = Fin 20, t0 = 1800, x1 = Fin 30, y1 = Fin 60, t1 = 5400, obs = 1\<rparr>, \<lparr>flag = 1, x0 = Fin 30, y0 = Fin 60, t0 = 5400, x1 = Fin 50, y1 = Fin 100, t1 = 9000, obs = 1\<rparr>]] in
    \<exists>h1 c. traj_smooth_ends h 0 3600 7200 [True, True] = Inr (h1, c) \<and>
      h1 ! 0 = h ! 0 \<and> take (length h) h1 = h \<and> c = length h \<and>
      returned_array (traj_smooth_ends h1 0 0 3600 [True, False]) =
      returned_array (traj_smooth_ends h 0 0 3600 [True, False]))"
proof -
  have "count_true [True, True] = 2" by (simp add: count_true_def)
  then obtain h1 c where call:
    "traj_smooth_ends [[\<lparr>flag = 1, x0 = Fin 10, y0 = Fin 20, t0 = 1800, x1 = Fin 30, y1 = Fin 60, t1 = 5400, obs = 1\<rparr>, \<lparr>flag = 1, x0 = Fin 30, y0 = Fin 60, t0 = 5400, x1 = Fin 50, y1 = Fin 100, t1 = 9000, obs = 1\<rparr>]] 0 3600 7200 [True, True] = Inr (h1, c)"
    using tse_multi[of "[True, True]" "[[\<lparr>flag = 1, x0 = Fin 10, y0 = Fin 20, t0 = 1800, x1 = Fin 30, y1 = Fin 60, t1 = 5400, obs = 1\<rparr>, \<lparr>flag = 1, x0 = Fin 30, y0 = Fin 60, t0 = 5400, x1 = Fin 50, y1 = Fin 100, t1 = 9000, obs = 1\<rparr>]]" 0 _ 3600 7200] by simp
  show ?thesis
    using traj_smooth_ends_frame[of 0 "[[\<lparr>flag = 1, x0 = Fin 10, y0 = Fin 20, t0 = 1800, x1 = Fin 30, y1 = Fin 60, t1 = 5400, obs = 1\<rparr>, \<lparr>flag = 1, x0 = Fin 30, y0 = Fin 60, t0 = 5400, x1 = Fin 50, y1 = Fin 100, t1 = 9000, obs = 1\<rparr>]]" 3600 7200 "[True, True]" h1 c 0 3600 "[True, False]"] call
    by (simp add: Let_def)
qed

section \<open>C3: the data-quality check\<close>

lemma quality_loop_count:
  "quality_loop ts start (map int hs) qc =
     qc + int (length (filter
        (\<lambda>h. 60 < length (filter (\<lambda>t. start + real h * 3600 \<le> t \<and> t < start + (real h + 1) * 3600) ts))
        hs))"
  by (induction hs arbitrary: qc) (simp_all add: Let_def)

lemma quality_loop_dense:
  "quality_loop ts start (py_range n) 0 = int (dense_hours ts start n)"
  by (simp add: py_range_def dense_hours_def quality_loop_count)

text \<open>
  C3. For a GPS dataframe with a \<^verbatim>\<open>timestamp\<close> column and at least one row,
  \<^verbatim>\<open>gps_quality\<close> raises ValueError exactly when the number of hour buckets
  \<open>[start + h*3600, start + (h+1)*3600)\<close>, \<open>h\<close> from 0 to \<open>num_hours - 1\<close> with
  \<open>num_hours = int((end_time - start_time) / 3600) + 1\<close>, that hold more than 60
  observations is less than \<open>0.5 * num_hours\<close>; otherwise it returns, and the dataframe
  is as it was.
\<close>

theorem gps_quality_raises_iff:
  assumes wf: "wf_df data"
    and col: "column_of data ''timestamp'' = Inr ts"
    and rows: "rows data \<noteq> []"
    and nh: "num_hours = py_int ((last ts - hd ts) / 3600) + 1"
  shows "(gps_quality data = Inl (ValueError ''Data does not have enough observations per hour.'') \<longleftrightarrow>
            real (dense_hours ts (hd ts) num_hours) < 0.5 * real_of_int num_hours) \<and>
         (\<not> real (dense_hours ts (hd ts) num_hours) < 0.5 * real_of_int num_hours \<longrightarrow>
            gps_quality data = Inr data)"
proof -
  have ne: "ts \<noteq> []"
    using col rows by (auto simp: column_of_def split: option.splits)
  have eq: "gps_quality data =
      (if real (dense_hours ts (hd ts) num_hours) < 0.5 * real_of_int num_hours
       then Inl (ValueError ''Data does not have enough observations per hour.'')
       else Inr data)"
    using col ne nh by (simp add: gps_quality_def Let_def quality_loop_dense)
  show ?thesis by (simp add: eq)
qed

theorem gps_quality_raises_iff_witness:
  "gps_quality \<lparr>columns = [''timestamp'', ''latitude'', ''longitude''],
                rows = [[0, 51, 7], [10, 51, 7], [20, 51, 7]]\<rparr>
     = Inl (ValueError ''Data does not have enough observations per hour.'') \<and>
   dense_hours [0, 10, 20] 0 1 = 0 \<and>
   gps_quality \<lparr>columns = [''timestamp''], rows = map (\<lambda>i. [real i]) [0..<61]\<rparr>
     = Inr \<lparr>columns = [''timestamp''], rows = map (\<lambda>i. [real i]) [0..<61]\<rparr> \<and>
   dense_hours (map real [0..<61]) 0 1 = 1"
proof -
  let ?D = "\<lparr>columns = [''timestamp'', ''latitude'', ''longitude''],
            rows = [[0, 51, 7], [10, 51, 7], [20, 51, 7 :: real]]\<rparr>"
  have wf: "wf_df ?D" by (simp add: wf_df_def)
  have col: "column_of ?D ''timestamp'' = Inr [0, 10, 20]" by (simp add: column_of_def)
  have rows: "rows ?D \<noteq> []" by simp
  have nh: "(1::int) = py_int ((last [0, 10, 20 :: real] - hd [0, 10, 20]) / 3600) + 1"
    by (simp add: py_int_def)
  have dh: "dense_hours [0, 10, 20] 0 1 = 0" by (simp add: dense_hours_def)
  have sparse: "gps_quality ?D = Inl (ValueError ''Data does not have enough observations per hour.'')"
    using gps_quality_raises_iff[OF wf col rows nh] dh by simp
  let ?E = "\<lparr>columns = [''timestamp''], rows = map (\<lambda>i. [real i]) [0..<61]\<rparr>"
  let ?ts = "map real [0..<61]"
  have wf': "wf_df ?E" by (simp add: wf_df_def list_all_iff)
  have col': "column_of ?E ''timestamp'' = Inr ?ts" by (simp add: column_of_def comp_def)
  have rows': "rows ?E \<noteq> []" by simp
  have hd': "hd ?ts = 0" by code_simp
  have nh': "(1::int) = py_int ((last ?ts - hd ?ts) / 3600) + 1" by code_simp
  have dh': "dense_hours ?ts 0 1 = 1" by code_simp
  have dense: "gps_quality ?E = Inr ?E"
    using gps_quality_raises_iff[OF wf' col' rows' nh'] dh' hd' by simp
  show ?thesis using sparse dh dense dh' by simp
qed

section \<open>C5: day and night\<close>

lemma hours_loop_map:
  "hours_loop fz tz rs acc = acc @ map (\<lambda>r. hour (stamp2datetime fz ((t0 r + t1 r) / 2) tz)) rs"
  by (induction rs arbitrary: acc) (simp_all add: Let_def)

lemma map2_conj: "map2 (\<lambda>a b. a \<and> b) (map f xs) (map g xs) = map (\<lambda>x. f x \<and> g x) xs"
  by (induction xs) simp_all

text \<open>
  C5. \<^verbatim>\<open>day_night_split\<close> returns two boolean arrays as long as the sub-trajectory;
  \<open>night_index\<close> is the pointwise negation of \<open>day_index\<close>, and row \<open>i\<close> is in
  \<open>day_index\<close> exactly when the hour of its midpoint timestamp (the mean of its start and
  end timestamps, converted in the given timezone) is between 8 and 19 inclusive.
\<close>

theorem day_night_split_partition:
  assumes "day_night_split fz current_traj timezone = (day_index, night_index)"
  shows "length day_index = length current_traj \<and>
         length night_index = length current_traj \<and>
         night_index = map Not day_index \<and>
         (\<forall>i < length current_traj.
            day_index ! i \<longleftrightarrow>
              8 \<le> hour (stamp2datetime fz ((t0 (current_traj ! i) + t1 (current_traj ! i)) / 2) timezone) \<and>
              hour (stamp2datetime fz ((t0 (current_traj ! i) + t1 (current_traj ! i)) / 2) timezone) \<le> 19)"
  using assms by (auto simp: day_night_split_def Let_def hours_loop_map map2_conj)

theorem day_night_split_partition_witness:
  "\<exists>day_index night_index.
     day_night_split (utc_forest (\<lambda>_ _. Inr (0, 0)))
       [\<lparr>flag = 1, x0 = Fin 10, y0 = Fin 20, t0 = 28800, x1 = Fin 30, y1 = Fin 60, t1 = 32400, obs = 1\<rparr>,
        \<lparr>flag = 1, x0 = Fin 30, y0 = Fin 60, t0 = 72000, x1 = Fin 30, y1 = Fin 60, t1 = 75600, obs = 1\<rparr>] ''UTC''
       = (day_index, night_index) \<and>
     length day_index = 2 \<and> length night_index = 2 \<and>
     night_index = map Not day_index \<and> day_index ! 0 \<and> \<not> day_index ! 1"
proof -
  let ?T = "[\<lparr>flag = 1, x0 = Fin 10, y0 = Fin 20, t0 = 28800, x1 = Fin 30, y1 = Fin 60, t1 = 32400, obs = 1\<rparr>,
        \<lparr>flag = 1, x0 = Fin 30, y0 = Fin 60, t0 = 72000, x1 = Fin 30, y1 = Fin 60, t1 = 75600, obs = 1\<rparr>]"
  let ?F = "utc_forest (\<lambda>_ _. Inr (0, 0))"
  obtain d n where dn: "day_night_split ?F ?T ''UTC'' = (d, n)" by (cases "day_night_split ?F ?T ''UTC''")
  have h0: "hour (stamp2datetime ?F ((28800 + 32400) / 2) ''UTC'') = 8" by code_simp
  have h1: "hour (stamp2datetime ?F ((72000 + 75600) / 2) ''UTC'') = 20" by code_simp
  from day_night_split_partition[OF dn]
  have "length d = 2" "length n = 2" "n = map Not d" "d ! 0" "\<not> d ! 1"
    using h0 h1 by (simp_all add: nth_Cons')
  with dn show ?thesis by blast
qed

section \<open>C6: the summary row\<close>

lemma present_nums: "present (map Num xs) = map Fin xs"
  by (induction xs) simp_all

lemma foldl_fl_add: "foldl fl_add (Fin a) (map Fin xs) = Fin (a + sum_list xs)"
  by (induction xs arbitrary: a) (simp_all add: add.assoc)

lemma fl_sum_fin: "fl_sum (map Fin xs) = Fin (sum_list xs)"
  by (simp add: fl_sum_def foldl_fl_add)

lemma foldl_cell_add: "foldl cell_add (Num a) (map Num xs) = Num (a + sum_list xs)"
  by (induction xs arbitrary: a) (simp_all add: add.assoc)

lemma py_sum_nums: "py_sum (map Num xs) = Num (sum_list xs)"
  by (simp add: py_sum_def foldl_cell_add)

lemma fl_mean_fin: "fl_mean (map Fin xs) = Fin (mean_of xs)"
  by (simp add: fl_mean_def fl_sum_fin mean_of_def)

lemma np_mean_nums: "np_mean (map Num xs) = stat mean_of xs"
  by (simp add: np_mean_def present_nums fl_mean_fin stat_def Let_def)

lemma squares_fin:
  "map (\<lambda>x. fl_mul (fl_sub (Fin m) x) (fl_sub (Fin m) x)) (map Fin xs) = map Fin (map (\<lambda>x. (x - m)\<^sup>2) xs)"
  by (induction xs) (simp_all add: fl_sub_def power2_eq_square algebra_simps)

lemma mean_squares_nonneg: "0 \<le> mean_of (map (\<lambda>x. (x - m)\<^sup>2) xs)"
proof -
  have "0 \<le> (\<Sum>x\<leftarrow>xs. (x - m)\<^sup>2)" by (rule sum_list_nonneg) auto
  then show ?thesis by (simp add: mean_of_def comp_def)
qed

lemma np_std_nums: "np_std (map Num xs) = stat sd_of xs"
proof (cases "xs = []")
  case True
  then show ?thesis by (simp add: np_std_def stat_def)
next
  case False
  have "fl_sqrt (fl_mean (map (\<lambda>x. fl_mul (fl_sub (Fin (mean_of xs)) x) (fl_sub (Fin (mean_of xs)) x)) (map Fin xs)))
          = Fin (sqrt (mean_of (map (\<lambda>x. (x - mean_of xs)\<^sup>2) xs)))"
    using mean_squares_nonneg[of "mean_of xs" xs]
    by (simp only: squares_fin fl_mean_fin fl_sqrt.simps) simp
  moreover have "mean_of (map (\<lambda>x. (x - mean_of xs)\<^sup>2) xs) = (\<Sum>x\<leftarrow>xs. (x - mean_of xs)\<^sup>2) / real (length xs)"
    by (simp add: mean_of_def comp_def)
  ultimately show ?thesis
    using False by (simp add: np_std_def present_nums fl_mean_fin stat_def sd_of_def Let_def)
qed

text \<open>
  C6, as amended. For a daily dataframe whose columns \<^verbatim>\<open>observed_time\<close>,
  \<^verbatim>\<open>dist_travelled\<close>, \<^verbatim>\<open>home_time\<close> and \<^verbatim>\<open>home_max_dist\<close> hold numbers only (no missing
  value), \<^verbatim>\<open>summary_stats\<close> returns the summary dataframe with row 0 set to, in order: the
  number of daily rows, the sum of \<^verbatim>\<open>observed_time\<close>, and the mean and the standard
  deviation of \<^verbatim>\<open>dist_travelled\<close>, of \<^verbatim>\<open>home_time\<close> and of \<^verbatim>\<open>home_max_dist\<close> (nan for a
  dataframe with no rows); the columns and every other row of the summary are as they
  were.
\<close>

theorem summary_stats_row:
  assumes wf: "wf_df daily"
    and c1: "column_of daily ''observed_time'' = Inr (map Num observed_time)"
    and c2: "column_of daily ''dist_travelled'' = Inr (map Num dist_travelled)"
    and c3: "column_of daily ''home_time'' = Inr (map Num home_time)"
    and c4: "column_of daily ''home_max_dist'' = Inr (map Num home_max_dist)"
    and cols: "length (columns summary) = 8"
  shows "\<exists>filled. summary_stats daily summary = Inr filled \<and>
           columns filled = columns summary \<and>
           rows filled \<noteq> [] \<and>
           rows filled ! 0 =
             [Num (real (length (rows daily))), Num (sum_list observed_time),
              stat mean_of dist_travelled, stat sd_of dist_travelled,
              stat mean_of home_time, stat sd_of home_time,
              stat mean_of home_max_dist, stat sd_of home_max_dist] \<and>
           tl (rows filled) = tl (rows summary)"
  using c1 c2 c3 c4 cols
  by (cases "rows summary")
     (simp_all add: summary_stats_def df_set_loc0_def Let_def py_sum_nums np_mean_nums np_std_nums)

theorem summary_stats_row_witness:
  "\<exists>filled. summary_stats
       \<lparr>columns = [''observed_time'', ''dist_travelled'', ''home_time'', ''home_max_dist''],
        rows = [[Num 10, Num 3, Num 5, Num 7], [Num 20, Num 5, Num 5, Num 9]]\<rparr>
       \<lparr>columns = [''no_days'', ''total_observed_time'', ''mean_dist_travelled'', ''sd_dist_travelled'',
                   ''mean_home_time'', ''sd_home_time'', ''mean_home_max_dist'', ''sd_home_max_dist''],
        rows = []\<rparr> = Inr filled \<and>
     rows filled = [[Num 2, Num 30, Num 4, Num 1, Num 5, Num 0, Num 8, Num 1]]"
proof -
  let ?D = "\<lparr>columns = [''observed_time'', ''dist_travelled'', ''home_time'', ''home_max_dist''],
        rows = [[Num 10, Num 3, Num 5, Num 7], [Num 20, Num 5, Num 5, Num 9]]\<rparr>"
  let ?S = "\<lparr>columns = [''no_days'', ''total_observed_time'', ''mean_dist_travelled'', ''sd_dist_travelled'',
                   ''mean_home_time'', ''sd_home_time'', ''mean_home_max_dist'', ''sd_home_max_dist''],
        rows = [] :: cell list list\<rparr>"
  have wf: "wf_df ?D" by (simp add: wf_df_def)
  have c1: "column_of ?D ''observed_time'' = Inr (map Num [10, 20])" by (simp add: column_of_def)
  have c2: "column_of ?D ''dist_travelled'' = Inr (map Num [3, 5])" by (simp add: column_of_def)
  have c3: "column_of ?D ''home_time'' = Inr (map Num [5, 5])" by (simp add: column_of_def)
  have c4: "column_of ?D ''home_max_dist'' = Inr (map Num [7, 9])" by (simp add: column_of_def)
  have cols: "length (columns ?S) = 8" by simp
  have s1: "stat mean_of [3, 5] = Num 4" "stat sd_of [3, 5] = Num 1"
    "stat mean_of [5, 5] = Num 5" "stat sd_of [5, 5] = Num 0"
    "stat mean_of [7, 9] = Num 8" "stat sd_of [7, 9] = Num 1"
    by (simp_all add: stat_def mean_of_def sd_of_def)
  from summary_stats_row[OF wf c1 c2 c3 c4 cols]
  obtain filled where f: "summary_stats ?D ?S = Inr filled" "rows filled \<noteq> []"
    "rows filled ! 0 = [Num 2, Num 30, Num 4, Num 1, Num 5, Num 0, Num 8, Num 1]"
    "tl (rows filled) = []"
    using s1 by auto
  then have "rows filled = [[Num 2, Num 30, Num 4, Num 1, Num 5, Num 0, Num 8, Num 1]]"
    by (cases "rows filled") auto
  with f show ?thesis by blast
qed

text \<open>
  C6 as stated fails on a daily dataframe with a missing value. For a day without
  statistics the total observed time is nan (the sum takes the missing value in), while
  the means and deviations are those of the one day present (they leave it out). However
  "the sum" and "the mean of the column" are read for such a column, over the values
  present or missing as soon as one value is, one of the first two statistics is not the
  one computed: the sum over the values present is 10, not nan; the mean that a missing
  value makes missing is nan, not 3.
\<close>

theorem summary_stats_missing_counterexample:
  "summary_stats
       \<lparr>columns = [''observed_time'', ''dist_travelled'', ''home_time'', ''home_max_dist''],
        rows = [[Num 10, Num 3, Num 5, Num 7], [NaN, NaN, NaN, NaN]]\<rparr>
       \<lparr>columns = [''no_days'', ''total_observed_time'', ''mean_dist_travelled'', ''sd_dist_travelled'',
                   ''mean_home_time'', ''sd_home_time'', ''mean_home_max_dist'', ''sd_home_max_dist''],
        rows = []\<rparr>
     = Inr \<lparr>columns = [''no_days'', ''total_observed_time'', ''mean_dist_travelled'', ''sd_dist_travelled'',
                   ''mean_home_time'', ''sd_home_time'', ''mean_home_max_dist'', ''sd_home_max_dist''],
            rows = [[Num 2, NaN, Num 3, Num 0, Num 5, Num 0, Num 7, Num 0]]\<rparr> \<and>
   sum_of_present [Num 10, NaN] = Num 10 \<and>
   mean_or_missing [Num 3, NaN] = NaN"
  by (simp add: summary_stats_def column_of_def df_set_loc0_def py_sum_def np_mean_def np_std_def
      fl_mean_def fl_sum_def fl_sub_def sum_of_present_def mean_or_missing_def has_missing_def Let_def)

section \<open>C8: the transcription response\<close>

text \<open>
  C8. When the configuration loads and \<^verbatim>\<open>transcribe_audio\<close> returns
  \<open>(json_response, transcript)\<close>, \<^verbatim>\<open>speech_transcription_cloud\<close> returns the
  transcript with the response reshaped by \<^verbatim>\<open>get_clinical_labels\<close> exactly when
  \<^verbatim>\<open>ShowSpeakerLabels\<close> is True and \<^verbatim>\<open>c_scale\<close> is a non-empty string (each the keyword
  argument, or its default True and the empty string); in every other case the response
  is the one \<^verbatim>\<open>transcribe_audio\<close> returned.
\<close>

theorem speech_transcription_cloud_result:
  assumes cfg: "get_config = Inr measures_cfg"
    and ip: "input_param = read_kwargs kwargs"
    and tr: "transcribe_audio tu filepath input_param = Inr (json_response, transcript)"
  shows "(ShowSpeakerLabels input_param = True \<and> c_scale input_param \<noteq> [] \<longrightarrow>
            extract_content tu json_response = Inr content_dict \<longrightarrow>
            get_clinical_labels tu (c_scale input_param) measures_cfg content_dict json_response
              = Inr labelled \<longrightarrow>
            speech_transcription_cloud tu get_config filepath kwargs = Inr (labelled, transcript)) \<and>
         (\<not> (ShowSpeakerLabels input_param = True \<and> c_scale input_param \<noteq> []) \<longrightarrow>
            speech_transcription_cloud tu get_config filepath kwargs = Inr (json_response, transcript)) \<and>
         ShowSpeakerLabels input_param = kw_get (kw_ShowSpeakerLabels kwargs) True \<and>
         c_scale input_param = kw_get (kw_c_scale kwargs) []"
proof -
  have eq: "speech_transcription_cloud tu get_config filepath kwargs =
      (if ShowSpeakerLabels input_param = True \<and> c_scale input_param \<noteq> []
       then (case extract_content tu json_response of
               Inl e \<Rightarrow> Inl e
             | Inr c \<Rightarrow>
                (case get_clinical_labels tu (c_scale input_param) measures_cfg c json_response of
                   Inl e \<Rightarrow> Inl e
                 | Inr l \<Rightarrow> Inr (l, transcript)))
       else Inr (json_response, transcript))"
    unfolding speech_transcription_cloud_def Let_def ip[symmetric]
    using cfg tr by simp
  have fields: "ShowSpeakerLabels input_param = kw_get (kw_ShowSpeakerLabels kwargs) True"
    "c_scale input_param = kw_get (kw_c_scale kwargs) []"
    by (simp_all add: ip read_kwargs_def)
  show ?thesis using eq fields by simp
qed

theorem speech_transcription_cloud_result_witness:
  "(let tu = \<lparr>transcribe_audio = (\<lambda>f p. Inr (''response of '' @ f, ''hello'')),
              extract_content = (\<lambda>j. Inr (length j)),
              get_clinical_labels = (\<lambda>s m c j. Inr (j @ '' labelled '' @ s))\<rparr>;
        kw = \<lparr>kw_model = None, kw_language = None, kw_region = None, kw_job_name = None,
              kw_ShowSpeakerLabels = None, kw_MaxSpeakerLabels = None, kw_c_scale = None,
              kw_access_key = None, kw_secret_key = None\<rparr>
    in speech_transcription_cloud tu (Inr ()) ''a.wav'' (kw\<lparr>kw_c_scale := Some ''panss''\<rparr>)
         = Inr (''response of a.wav labelled panss'', ''hello'') \<and>
       speech_transcription_cloud tu (Inr ()) ''a.wav'' kw
         = Inr (''response of a.wav'', ''hello'') \<and>
       speech_transcription_cloud tu (Inr ()) ''a.wav'' (kw\<lparr>kw_c_scale := Some ''panss'', kw_ShowSpeakerLabels := Some False\<rparr>)
         = Inr (''response of a.wav'', ''hello''))"
proof -
  let ?tu = "\<lparr>transcribe_audio = (\<lambda>f p. Inr (''response of '' @ f, ''hello'')),
              extract_content = (\<lambda>j. Inr (length j)),
              get_clinical_labels = (\<lambda>s (m::unit) c j. Inr (j @ '' labelled '' @ s))\<rparr>"
  let ?kw = "\<lparr>kw_model = None, kw_language = None, kw_region = None, kw_job_name = None,
              kw_ShowSpeakerLabels = None, kw_MaxSpeakerLabels = None, kw_c_scale = None,
              kw_access_key = None, kw_secret_key = None\<rparr>"
  have a: "speech_transcription_cloud ?tu (Inr ()) ''a.wav'' (?kw\<lparr>kw_c_scale := Some ''panss''\<rparr>)
         = Inr (''response of a.wav labelled panss'', ''hello'')"
    using speech_transcription_cloud_result
      [of "Inr ()" "()" _ "?kw\<lparr>kw_c_scale := Some ''panss''\<rparr>" ?tu "''a.wav''"
          "''response of a.wav''" "''hello''" 17 "''response of a.wav labelled panss''", OF refl refl]
    by (simp add: kw_get_def)
  have b: "speech_transcription_cloud ?tu (Inr ()) ''a.wav'' ?kw
         = Inr (''response of a.wav'', ''hello'')"
    using speech_transcription_cloud_result
      [of "Inr ()" "()" _ ?kw ?tu "''a.wav''" "''response of a.wav''" "''hello''", OF refl refl]
    by (simp add: kw_get_def)
  have c: "speech_transcription_cloud ?tu (Inr ()) ''a.wav''
             (?kw\<lparr>kw_c_scale := Some ''panss'', kw_ShowSpeakerLabels := Some False\<rparr>)
         = Inr (''response of a.wav'', ''hello'')"
    using speech_transcription_cloud_result
      [of "Inr ()" "()" _ "?kw\<lparr>kw_c_scale := Some ''panss'', kw_ShowSpeakerLabels := Some False\<rparr>"
          ?tu "''a.wav''" "''response of a.wav''" "''hello''", OF refl refl]
    by (simp add: kw_get_def)
  show ?thesis using a b c by (simp add: Let_def)
qed

section \<open>C1: the rows of the returned dataframe\<close>

lemma gps_stats_df_unchanged:
  "gps_stats fz g h traj df frequency timezone = Inr (h', df') \<Longrightarrow> df' = df"
  by (auto simp: gps_stats_def Let_def split: if_splits sum.splits)

lemma gps_stats_locate_home_raises:
  "locate_home fz (mask_select (h ! traj) (map (\<lambda>r. obs r = 1) (h ! traj))) timezone = Inl e \<Longrightarrow>
   gps_stats fz g h traj df frequency timezone = Inl e"
  by (simp add: gps_stats_def Let_def)

text \<open>
  C1, evaluated on the code. A trajectory of one pause from 00:30 to 02:30 UTC on
  1970-01-01, for which \<^verbatim>\<open>locate_home\<close> returns a location \<open>home\<close>, spans two full hourly
  windows, and \<^verbatim>\<open>gps_stats\<close> raises NameError in the first of them, at
  \<^verbatim>\<open>great_circle_dist\<close>: no dataframe is returned. On a trajectory whose two windows
  overlap no segment, \<^verbatim>\<open>gps_stats\<close> returns, and the dataframe it returns has no row:
  the result of \<^verbatim>\<open>df.append\<close> is dropped.
\<close>

theorem gps_stats_appends_nothing:
  "(let tr = [\<lparr>flag = 2, x0 = Fin 10, y0 = Fin 20, t0 = 1800, x1 = Fin 10, y1 = Fin 20, t1 = 9000, obs = 1\<rparr>];
        df = \<lparr>columns = [''year'', ''month'', ''day'', ''hour'', ''observed_time'',
                          ''dist_travelled'', ''home_time'', ''home_max_dist''],
              rows = []\<rparr>
    in no_windows_of (utc_forest (\<lambda>_ _. Inr home)) tr ''hourly'' ''UTC'' = 2 \<and>
       gps_stats (utc_forest (\<lambda>_ _. Inr home)) module_globals [tr] 0 df ''hourly'' ''UTC''
         = Inl (NameError ''great_circle_dist'')) \<and>
   (let tr = [\<lparr>flag = 2, x0 = Fin 10, y0 = Fin 20, t0 = 0, x1 = Fin 10, y1 = Fin 20, t1 = 0, obs = 1\<rparr>,
              \<lparr>flag = 2, x0 = Fin 10, y0 = Fin 20, t0 = 7200, x1 = Fin 10, y1 = Fin 20, t1 = 7200, obs = 1\<rparr>];
        df = \<lparr>columns = [''year'', ''month'', ''day'', ''hour'', ''observed_time'',
                          ''dist_travelled'', ''home_time'', ''home_max_dist''],
              rows = []\<rparr>
    in no_windows_of (utc_forest (\<lambda>_ _. Inr home)) tr ''hourly'' ''UTC'' = 2 \<and>
       gps_stats (utc_forest (\<lambda>_ _. Inr home)) module_globals [tr] 0 df ''hourly'' ''UTC'' = Inr ([tr], df))"
  by code_simp

section \<open>C4: time at home and distance from home\<close>

text \<open>
  C4, evaluated on the code. The module binds neither \<^verbatim>\<open>great_circle_dist\<close> nor
  \<^verbatim>\<open>temp\<close>. Even with \<^verbatim>\<open>great_circle_dist\<close> bound to a distance function \<open>d\<close>, the
  distances from home are computed from \<^verbatim>\<open>temp\<close>, not from the window's smoothed
  sub-trajectory, and the first window with a segment raises NameError there.
\<close>

theorem gps_stats_home_time_unbound_temp:
  "gps_stats (utc_forest (\<lambda>_ _. Inr home)) \<lparr>great_circle_dist = Some d, temp = None\<rparr>
     [[\<lparr>flag = 2, x0 = Fin 10, y0 = Fin 20, t0 = 1800, x1 = Fin 10, y1 = Fin 20, t1 = 9000, obs = 1\<rparr>]] 0
     \<lparr>columns = [''year'', ''month'', ''day'', ''hour'', ''observed_time'',
                 ''dist_travelled'', ''home_time'', ''home_max_dist''],
      rows = []\<rparr>
     ''hourly'' ''UTC'' = Inl (NameError ''temp'') \<and>
   temp module_globals = None \<and> great_circle_dist module_globals = None"
  by code_simp

section \<open>C10 and C7: the arguments of \<^verbatim>\<open>process_chunk_hf\<close>\<close>

text \<open>
  C10, evaluated on the code. The tuple \<^verbatim>\<open>call_diarization_hf\<close> builds in both branches has
  four components; the body of \<^verbatim>\<open>process_chunk_hf\<close> unpacks three, so unpacking raises
  ValueError for every chunk.
\<close>

theorem hf_args_unpack_fails:
  "length (hf_args idx prompt input_param endpoint_name) = 4 \<and>
   process_chunk_body generate (hf_args idx prompt input_param endpoint_name)
     = Inl (ValueError ''too many values to unpack (expected 3)'')"
  by (simp add: hf_args_def process_chunk_body_def)

lemma process_chunk_hf_fails:
  "process_chunk_hf generate (hf_args idx prompt input_param endpoint_name) = Inl RetriesExhausted"
  by (simp add: process_chunk_hf_def hf_args_def process_chunk_body_def numeral_3_eq_3)

text \<open>
  C7, evaluated on the code. For two chunks, neither branch returns a dictionary: every
  attempt of \<^verbatim>\<open>process_chunk_hf\<close> fails at unpacking. For no chunk, the parallel branch
  raises (a pool of no process) where the sequential branch returns the empty
  dictionary.
\<close>

theorem call_diarization_hf_returns_no_outputs:
  "call_diarization_hf generate [(0, ''speaker0: hello''), (1, ''speaker1: hi'')] endpoint_name
      \<lparr>parallel_processing = 1, quantized = q\<rparr> = Inl RetriesExhausted \<and>
   call_diarization_hf generate [(0, ''speaker0: hello''), (1, ''speaker1: hi'')] endpoint_name
      \<lparr>parallel_processing = 0, quantized = q\<rparr> = Inl RetriesExhausted \<and>
   call_diarization_hf generate [] endpoint_name \<lparr>parallel_processing = 1, quantized = q\<rparr>
      = Inl (ValueError ''Number of processes must be at least 1'') \<and>
   call_diarization_hf generate [] endpoint_name \<lparr>parallel_processing = 0, quantized = q\<rparr> = Inr []"
  by code_simp

text \<open>The same for every non-empty dictionary of prompts, in both branches.\<close>

lemma sorted_keys_in_dict:
  "idx \<in> set (map fst prompts) \<Longrightarrow> \<exists>p. dict_get prompts idx = Inr p"
  by (cases "map_of prompts idx") (auto simp: dict_get_def map_of_eq_None_iff)

lemma sequential_loop_fails:
  "set ks \<subseteq> set (map fst prompts) \<Longrightarrow> ks \<noteq> [] \<Longrightarrow>
   sequential_loop generate prompts input_param endpoint_name ks results = Inl RetriesExhausted"
proof (cases ks)
  case Nil
  then show "ks \<noteq> [] \<Longrightarrow> ?thesis" by simp
next
  case (Cons k rest)
  assume "set ks \<subseteq> set (map fst prompts)"
  then obtain p where "dict_get prompts k = Inr p"
    using Cons sorted_keys_in_dict[of k prompts] by auto
  then show ?thesis using Cons by (simp add: process_chunk_hf_fails)
qed

lemma build_args_ok:
  "set ks \<subseteq> set (map fst prompts) \<Longrightarrow>
   \<exists>ps. length ps = length ks \<and>
     build_args prompts input_param endpoint_name ks =
       Inr (map2 (\<lambda>k p. hf_args k p input_param endpoint_name) ks ps)"
proof (induction ks)
  case Nil
  then show ?case by simp
next
  case (Cons k ks)
  then obtain ps where ps: "length ps = length ks"
    "build_args prompts input_param endpoint_name ks =
       Inr (map2 (\<lambda>k p. hf_args k p input_param endpoint_name) ks ps)" by auto
  obtain p where p: "dict_get prompts k = Inr p"
    using Cons.prems sorted_keys_in_dict[of k prompts] by auto
  show ?case
    by (rule exI[of _ "p # ps"]) (simp add: ps p)
qed

lemma call_diarization_hf_fails:
  assumes "prompts \<noteq> []"
  shows "call_diarization_hf generate prompts endpoint_name input_param = Inl RetriesExhausted"
proof -
  let ?ks = "sort (map fst prompts)"
  have sub: "set ?ks \<subseteq> set (map fst prompts)" by simp
  have ne: "?ks \<noteq> []" using assms by (metis length_0_conv length_map length_sort)
  show ?thesis
  proof (cases "parallel_processing input_param = 1")
    case False
    then show ?thesis
      using sequential_loop_fails[OF sub ne] by (simp add: call_diarization_hf_def)
  next
    case True
    obtain ps where ps: "length ps = length ?ks"
      "build_args prompts input_param endpoint_name ?ks =
         Inr (map2 (\<lambda>k p. hf_args k p input_param endpoint_name) ?ks ps)"
      using build_args_ok[OF sub] by blast
    obtain k ks' where k: "?ks = k # ks'" using ne by (cases ?ks) auto
    then obtain p ps' where p: "ps = p # ps'" using ps(1) by (cases ps) auto
    have "pool_map (process_chunk_hf generate)
            (map2 (\<lambda>k p. hf_args k p input_param endpoint_name) ?ks ps) = Inl RetriesExhausted"
      unfolding k p by (simp add: process_chunk_hf_fails)
    then show ?thesis
      using True assms ps(2) by (simp add: call_diarization_hf_def)
  qed
qed

end
